theory Spec2Isabelle
  imports Complex_Main
begin

section \<open>Graphs as networkx keeps them\<close>

text \<open>
  \<^verbatim>\<open>plot_working_graph\<close> (src/qa_tools/plot.py) compares two \<^verbatim>\<open>networkx.Graph\<close> objects:
  \<^verbatim>\<open>G = sampler.to_networkx_graph()\<close>, the working graph of the device, and
  \<^verbatim>\<open>T = graph_func(*shape)\<close>, the full lattice. An undirected \<^verbatim>\<open>networkx.Graph\<close> keeps
  one insertion-ordered dict \<^verbatim>\<open>_adj\<close> from each node to the dict of its neighbours (\<^verbatim>\<open>_node\<close>
  has the same keys in the same order). The model is the association list of that dict:
  one entry per node, in insertion order, with the node's neighbours in insertion order.
\<close>

type_synonym 'n graph = "('n \<times> 'n list) list"

text \<open>
  How such a graph is built. \<^verbatim>\<open>add_node\<close> gives an absent node an empty neighbour dict and
  leaves a present node where it is. \<^verbatim>\<open>add_edge(u, v)\<close> first creates \<^verbatim>\<open>u\<close> and \<^verbatim>\<open>v\<close> when
  absent, then stores \<^verbatim>\<open>_adj[u][v]\<close> and \<^verbatim>\<open>_adj[v][u]\<close>; storing under a key that is present
  keeps the key's position.
\<close>

definition add_node :: "'n graph \<Rightarrow> 'n \<Rightarrow> 'n graph" where
  "add_node g n = (if n \<in> set (map fst g) then g else g @ [(n, [])])"

definition set_adj :: "'n \<Rightarrow> 'n \<Rightarrow> 'n graph \<Rightarrow> 'n graph" where
  "set_adj u v g =
     map (\<lambda>(n, nbrs). (n, if n = u \<and> v \<notin> set nbrs then nbrs @ [v] else nbrs)) g"

definition add_edge :: "'n graph \<Rightarrow> 'n \<Rightarrow> 'n \<Rightarrow> 'n graph" where
  "add_edge g u v = set_adj v u (set_adj u v (add_node (add_node g u) v))"

text \<open>
  The class invariant of \<^verbatim>\<open>networkx.Graph\<close>, which these two methods maintain: dict keys are
  unique, and the adjacency is symmetric, so every neighbour is itself a node.
\<close>

definition graph_inv :: "'n graph \<Rightarrow> bool" where
  "graph_inv g =
     (distinct (map fst g) \<and>
      list_all (\<lambda>(u, nbrs). distinct nbrs \<and>
        list_all (\<lambda>v. case map_of g v of None \<Rightarrow> False | Some nv \<Rightarrow> u \<in> set nv) nbrs) g)"

text \<open>
  \<^verbatim>\<open>T.nodes()\<close> is the \<^verbatim>\<open>NodeView\<close> itself (\<^verbatim>\<open>__call__\<close> with no data returns \<^verbatim>\<open>self\<close>).
  \<^verbatim>\<open>NodeView.__iter__\<close> is \<^verbatim>\<open>iter(self._nodes)\<close> and \<^verbatim>\<open>NodeView.__contains__\<close> is
  \<^verbatim>\<open>n in self._nodes\<close>.
\<close>

text \<open>The symmetry of the adjacency, as a statement about the entries.\<close>

definition sym_adj :: "'n graph \<Rightarrow> bool" where
  "sym_adj g =
     (\<forall>u nu v. (u, nu) \<in> set g \<longrightarrow> v \<in> set nu \<longrightarrow> (\<exists>nv. (v, nv) \<in> set g \<and> u \<in> set nv))"

definition nodes_iter :: "'n graph \<Rightarrow> 'n list" where
  "nodes_iter g = map fst g"

definition nodes_contains :: "'n graph \<Rightarrow> 'n \<Rightarrow> bool" where
  "nodes_contains g n = (n \<in> set (map fst g))"

text \<open>
  \<^verbatim>\<open>T.edges()\<close> is the \<^verbatim>\<open>EdgeView\<close> itself. Its iteration reports each undirected edge
  once, from the endpoint met first:
  \<^verbatim>\<open>
    def __iter__(self):
        seen = {}
        for n, nbrs in self._nodes_nbrs():
            for nbr in list(nbrs):
                if nbr not in seen:
                    yield (n, nbr)
            seen[n] = 1
        del seen
  \<close>
\<close>

fun edges_loop :: "'n set \<Rightarrow> 'n graph \<Rightarrow> ('n \<times> 'n) list" where
  "edges_loop seen [] = []"
| "edges_loop seen ((n, nbrs) # rest) =
     map (Pair n) (filter (\<lambda>nbr. nbr \<notin> seen) nbrs) @ edges_loop (insert n seen) rest"

definition edges_iter :: "'n graph \<Rightarrow> ('n \<times> 'n) list" where
  "edges_iter g = edges_loop {} g"

text \<open>
  Membership in an \<^verbatim>\<open>EdgeView\<close> looks the pair up in both orientations; a missing key
  makes it false:
  \<^verbatim>\<open>
    def __contains__(self, e):
        try:
            u, v = e[:2]
            return v in self._adjdict[u] or u in self._adjdict[v]
        except (KeyError, ValueError):
            return False
  \<close>
\<close>

definition edges_contains :: "'n graph \<Rightarrow> 'n \<times> 'n \<Rightarrow> bool" where
  "edges_contains g e =
     (case e of (u, v) \<Rightarrow>
        (case map_of g u of
           None \<Rightarrow> False
         | Some nu \<Rightarrow>
             (if v \<in> set nu then True
              else (case map_of g v of None \<Rightarrow> False | Some nv \<Rightarrow> u \<in> set nv))))"

text \<open>An edge as an unordered pair: the two-element (or one-element) set of its endpoints.\<close>

definition uedge :: "'n \<times> 'n \<Rightarrow> 'n set" where
  "uedge e = {fst e, snd e}"

section \<open>Defect sets and colour lists (plot.py, lines 55 to 59)\<close>

text \<open>
  Both views are \<^verbatim>\<open>collections.abc.Set\<close>s whose \<^verbatim>\<open>_from_iterable\<close> builds a builtin set, so
  \<^verbatim>\<open>T.nodes() - G.nodes()\<close> is
  \<^verbatim>\<open>set(value for value in T.nodes() if value not in G.nodes())\<close>, and the same for edges
  with the membership test of the \<^verbatim>\<open>EdgeView\<close> of \<^verbatim>\<open>G\<close>.
  \<^verbatim>\<open>
    error_node = set(T.nodes() - G.nodes())
    node_color = [ng_color if v in error_node else ok_color for v in T.nodes()]
    error_edge = set(T.edges() - G.edges())
    edge_color = [ng_color if e in error_edge else ok_color for e in T.edges()]
  \<close>
  The second membership test of each pair, \<^verbatim>\<open>in error_node\<close> and \<^verbatim>\<open>in error_edge\<close>, is that
  of a builtin set: equality of nodes, and equality of tuples for edges.
\<close>

definition error_node :: "'n graph \<Rightarrow> 'n graph \<Rightarrow> 'n set" where
  "error_node T G = set (filter (\<lambda>v. \<not> nodes_contains G v) (nodes_iter T))"

definition node_color :: "'n graph \<Rightarrow> 'n graph \<Rightarrow> string \<Rightarrow> string \<Rightarrow> string list" where
  "node_color T G ng_color ok_color =
     map (\<lambda>v. if v \<in> error_node T G then ng_color else ok_color) (nodes_iter T)"

definition error_edge :: "'n graph \<Rightarrow> 'n graph \<Rightarrow> ('n \<times> 'n) set" where
  "error_edge T G = set (filter (\<lambda>e. \<not> edges_contains G e) (edges_iter T))"

definition edge_color :: "'n graph \<Rightarrow> 'n graph \<Rightarrow> string \<Rightarrow> string \<Rightarrow> string list" where
  "edge_color T G ng_color ok_color =
     map (\<lambda>e. if e \<in> error_edge T G then ng_color else ok_color) (edges_iter T)"

section \<open>Topology selection (plot.py, lines 41 to 49)\<close>

text \<open>
  An exception that ends the entry point: the \<^verbatim>\<open>ValueError\<close> of lines 49 and 69 with its
  message, or what a library call raises (a \<^verbatim>\<open>ValueError\<close> again, or another exception).
\<close>

datatype error = ValueError string | Other_exception string

datatype graph_func = Chimera_graph | Pegasus_graph

datatype draw_func = Draw_chimera | Draw_pegasus

text \<open>
  \<^verbatim>\<open>
    if topology_type == "chimera":
        graph_func = dnx.chimera_graph
        draw_func  = dnx.draw_chimera
    elif topology_type == "pegasus":
        graph_func = dnx.pegasus_graph
        draw_func  = dnx.draw_pegasus
    else:
        raise ValueError(f"support chimera or pegasus, unsupported {topology_type}.")
  \<close>
\<close>

definition select_funcs :: "string \<Rightarrow> error + (graph_func \<times> draw_func)" where
  "select_funcs topology_type =
     (if topology_type = ''chimera'' then Inr (Chimera_graph, Draw_chimera)
      else if topology_type = ''pegasus'' then Inr (Pegasus_graph, Draw_pegasus)
      else Inl (ValueError (''support chimera or pegasus, unsupported '' @ topology_type @ ''.'')))"

section \<open>The state the entry point acts on\<close>

text \<open>
  The rectangle of lines 71 and 72, with the decimal literals of the source as rationals:
  \<^verbatim>\<open>
    patches.Rectangle(xy=(0.37, -0.82), width=0.64, height=0.83,
                      ec='green', fill=False, ls="--", lw="2")
  \<close>
\<close>

record rectangle =
  xy :: "rat \<times> rat"
  width :: rat
  height :: rat
  ec :: string
  fill :: bool
  ls :: string
  lw :: string

definition hardcoded_rectangle :: rectangle where
  "hardcoded_rectangle =
     \<lparr>xy = (0.37, - 0.82), width = 0.64, height = 0.83,
      ec = ''green'', fill = False, ls = ''--'', lw = ''2''\<rparr>"

text \<open>
  What an axes holds: the drawing of a graph (the drawer, the graph, its two colour
  lists and the node size) and patches.
\<close>

datatype 'n artist =
    Graph_artist draw_func "'n graph" "string list" "string list" nat
  | Patch_artist rectangle

record 'n figure =
  fig_figsize :: "rat \<times> rat"
  fig_axes :: "'n artist list list"

text \<open>Every call the entry point makes into a library, in the order of the source.\<close>

datatype call =
    To_networkx_graph
  | Graph_func graph_func "int list"
  | Plt_figure "rat \<times> rat"
  | Plt_axes
  | Draw_func draw_func
  | Add_patch
  | Plt_show
  | Os_makedirs_parent string
  | Plt_savefig string
  | Plt_clf

text \<open>
  The state: the graph objects allocated so far (a graph object is named by its index),
  the figures \<^verbatim>\<open>matplotlib.pyplot\<close> has open (the last one is the current figure), and the
  library calls made so far, oldest first.
\<close>

record 'n state =
  graphs :: "'n graph list"
  figures :: "'n figure list"
  calls :: "call list"

text \<open>What the entry point reads of the \<^verbatim>\<open>DWaveSampler\<close>.\<close>

record 'n sampler =
  topology_type :: string
  topology_shape :: "int list"
  chip_id :: string
  working_graph :: "'n graph"

text \<open>
  What the libraries do is not part of the repository and is a parameter of the model:
  \<^item> the two lattice generators of \<^verbatim>\<open>dwave_networkx\<close>, which return a graph or raise on a
    shape they do not accept;
  \<^item> whether \<^verbatim>\<open>plt.figure\<close> raises on the figure size (matplotlib refuses a size that is not
    positive and finite); when it raises, no figure is opened;
  \<^item> whether the drawer raises on the graph and the two colour lists (matplotlib refuses a
    colour it does not know), and which artists it had put on the axes by then;
  \<^item> whether \<^verbatim>\<open>os.makedirs\<close> raises on the parent directory of a path and whether
    \<^verbatim>\<open>plt.savefig\<close> raises on a path (a file format the backend does not write);
  \<^item> whether \<^verbatim>\<open>plt.show()\<close> returns with the figures closed (a blocking window backend, or
    the inline backend of a notebook) or still open (a backend that cannot show).
\<close>

record 'n libs =
  chimera_graph :: "int list \<Rightarrow> error + 'n graph"
  pegasus_graph :: "int list \<Rightarrow> error + 'n graph"
  figure_raises :: "rat \<times> rat \<Rightarrow> error option"
  draw_raises ::
    "draw_func \<Rightarrow> 'n graph \<Rightarrow> string list \<Rightarrow> string list \<Rightarrow> (error \<times> 'n artist list) option"
  makedirs_raises :: "string \<Rightarrow> error option"
  savefig_raises :: "string \<Rightarrow> error option"
  show_closes_figures :: bool

record args =
  out_path :: "string option"
  figsize :: "rat \<times> rat"
  ng_color :: string
  ok_color :: string
  draw_rectangle :: bool

definition to_networkx_graph :: "'n sampler \<Rightarrow> 'n state \<Rightarrow> nat \<times> 'n state" where
  "to_networkx_graph sampler s =
     (length (graphs s),
      s\<lparr>graphs := graphs s @ [working_graph sampler], calls := calls s @ [To_networkx_graph]\<rparr>)"

definition apply_graph_func :: "'n libs \<Rightarrow> graph_func \<Rightarrow> int list \<Rightarrow> error + 'n graph" where
  "apply_graph_func lib f shape =
     (case f of Chimera_graph \<Rightarrow> chimera_graph lib shape
              | Pegasus_graph \<Rightarrow> pegasus_graph lib shape)"

text \<open>
  A library call that raises ends the entry point with that exception; the call is in
  the list of calls all the same.
\<close>

definition call_graph_func ::
  "'n libs \<Rightarrow> graph_func \<Rightarrow> int list \<Rightarrow> 'n state \<Rightarrow> (error + nat) \<times> 'n state" where
  "call_graph_func lib f shape s =
     (case apply_graph_func lib f shape of
        Inl err \<Rightarrow> (Inl err, s\<lparr>calls := calls s @ [Graph_func f shape]\<rparr>)
      | Inr T \<Rightarrow>
          (Inr (length (graphs s)),
           s\<lparr>graphs := graphs s @ [T], calls := calls s @ [Graph_func f shape]\<rparr>))"

text \<open>
  Lines 55 to 59 on the state: the two graph objects are read through their views and
  nothing is written.
\<close>

definition compute_defects ::
  "nat \<Rightarrow> nat \<Rightarrow> string \<Rightarrow> string \<Rightarrow> 'n state \<Rightarrow>
     ('n set \<times> string list \<times> ('n \<times> 'n) set \<times> string list) \<times> 'n state" where
  "compute_defects T G ng ok s =
     ((error_node (graphs s ! T) (graphs s ! G),
       node_color (graphs s ! T) (graphs s ! G) ng ok,
       error_edge (graphs s ! T) (graphs s ! G),
       edge_color (graphs s ! T) (graphs s ! G) ng ok), s)"

text \<open>
  \<^verbatim>\<open>plt.figure\<close> opens a new figure and makes it current; \<^verbatim>\<open>plt.axes\<close> adds an axes to the
  current figure and returns it (here: its index in the figure); \<^verbatim>\<open>plt.clf\<close> removes
  everything from the current figure. \<^verbatim>\<open>plt.axes\<close> and \<^verbatim>\<open>plt.clf\<close> act on \<^verbatim>\<open>plt.gcf()\<close>, which
  opens a figure of the default size when none is open.
\<close>

definition rc_figsize :: "rat \<times> rat" where
  "rc_figsize = (6.4, 4.8)"

definition gcf :: "'n figure list \<Rightarrow> 'n figure list" where
  "gcf fs = (if fs = [] then [\<lparr>fig_figsize = rc_figsize, fig_axes = []\<rparr>] else fs)"

definition plt_figure :: "'n libs \<Rightarrow> rat \<times> rat \<Rightarrow> 'n state \<Rightarrow> (error + unit) \<times> 'n state" where
  "plt_figure lib sz s =
     (case figure_raises lib sz of
        Some err \<Rightarrow> (Inl err, s\<lparr>calls := calls s @ [Plt_figure sz]\<rparr>)
      | None \<Rightarrow>
          (Inr (),
           s\<lparr>figures := figures s @ [\<lparr>fig_figsize = sz, fig_axes = []\<rparr>],
             calls := calls s @ [Plt_figure sz]\<rparr>))"

definition plt_axes :: "'n state \<Rightarrow> nat \<times> 'n state" where
  "plt_axes s =
     (let fs = gcf (figures s); f = last fs
      in (length (fig_axes f),
          s\<lparr>figures := butlast fs @ [f\<lparr>fig_axes := fig_axes f @ [[]]\<rparr>],
            calls := calls s @ [Plt_axes]\<rparr>))"

definition add_artist :: "nat \<Rightarrow> 'n artist \<Rightarrow> 'n figure list \<Rightarrow> 'n figure list" where
  "add_artist ax a fs =
     (let f = last fs
      in butlast fs @ [f\<lparr>fig_axes := (fig_axes f)[ax := fig_axes f ! ax @ [a]]\<rparr>])"

definition call_draw_func ::
  "'n libs \<Rightarrow> draw_func \<Rightarrow> nat \<Rightarrow> string list \<Rightarrow> string list \<Rightarrow> nat \<Rightarrow> nat \<Rightarrow> 'n state \<Rightarrow>
     (error + unit) \<times> 'n state" where
  "call_draw_func lib f T ncol ecol node_size ax s =
     (case draw_raises lib f (graphs s ! T) ncol ecol of
        Some (err, left) \<Rightarrow>
          (Inl err,
           s\<lparr>figures := foldl (\<lambda>fs a. add_artist ax a fs) (figures s) left,
             calls := calls s @ [Draw_func f]\<rparr>)
      | None \<Rightarrow>
          (Inr (),
           s\<lparr>figures :=
               add_artist ax (Graph_artist f (graphs s ! T) ncol ecol node_size) (figures s),
             calls := calls s @ [Draw_func f]\<rparr>))"

definition add_patch :: "nat \<Rightarrow> rectangle \<Rightarrow> 'n state \<Rightarrow> 'n state" where
  "add_patch ax r s =
     s\<lparr>figures := add_artist ax (Patch_artist r) (figures s), calls := calls s @ [Add_patch]\<rparr>"

definition plt_show :: "'n libs \<Rightarrow> 'n state \<Rightarrow> 'n state" where
  "plt_show lib s =
     s\<lparr>figures := (if show_closes_figures lib then [] else figures s),
       calls := calls s @ [Plt_show]\<rparr>"

definition os_makedirs_parent :: "'n libs \<Rightarrow> string \<Rightarrow> 'n state \<Rightarrow> (error + unit) \<times> 'n state" where
  "os_makedirs_parent lib p s =
     (case makedirs_raises lib p of
        Some err \<Rightarrow> (Inl err, s\<lparr>calls := calls s @ [Os_makedirs_parent p]\<rparr>)
      | None \<Rightarrow> (Inr (), s\<lparr>calls := calls s @ [Os_makedirs_parent p]\<rparr>))"

definition plt_savefig :: "'n libs \<Rightarrow> string \<Rightarrow> 'n state \<Rightarrow> (error + unit) \<times> 'n state" where
  "plt_savefig lib p s =
     (case savefig_raises lib p of
        Some err \<Rightarrow> (Inl err, s\<lparr>calls := calls s @ [Plt_savefig p]\<rparr>)
      | None \<Rightarrow> (Inr (), s\<lparr>calls := calls s @ [Plt_savefig p]\<rparr>))"

definition plt_clf :: "'n state \<Rightarrow> 'n state" where
  "plt_clf s =
     (let fs = gcf (figures s)
      in s\<lparr>figures := butlast fs @ [(last fs)\<lparr>fig_axes := []\<rparr>], calls := calls s @ [Plt_clf]\<rparr>)"

section \<open>The rectangle (plot.py, lines 66 to 73)\<close>

text \<open>
  \<^verbatim>\<open>
    if draw_rectangle:
        chip_id = sampler.properties["chip_id"]
        if chip_id != "DW_2000Q_6":
            raise ValueError(f"support DW_2000Q_6, unsupported {chip_id}.")
        rectangle = patches.Rectangle(...)
        ax.add_patch(rectangle)
  \<close>
\<close>

definition rectangle_step ::
  "bool \<Rightarrow> string \<Rightarrow> nat \<Rightarrow> 'n state \<Rightarrow> (error + unit) \<times> 'n state" where
  "rectangle_step requested chip ax s =
     (if requested then
        (if chip \<noteq> ''DW_2000Q_6''
         then (Inl (ValueError (''support DW_2000Q_6, unsupported '' @ chip @ ''.'')), s)
         else (Inr (), add_patch ax hardcoded_rectangle s))
      else (Inr (), s))"

section \<open>The entry point (plot.py, lines 13 to 81)\<close>

text \<open>
  Lines 52 to 64: the two graphs, the defect sets and colour lists, a new figure with one
  axes, and the drawing of the lattice on that axes.
  \<^verbatim>\<open>
    G = sampler.to_networkx_graph()
    T = graph_func(*sampler.properties["topology"]["shape"])
    ...
    plt.figure(figsize=figsize)
    ax  = plt.axes()
    draw_func(T, node_color=node_color, edge_color=edge_color, node_size=1, ax=ax)
  \<close>
\<close>

definition draw_phase ::
  "'n libs \<Rightarrow> 'n sampler \<Rightarrow> args \<Rightarrow> graph_func \<Rightarrow> draw_func \<Rightarrow> 'n state \<Rightarrow>
     (error + nat) \<times> 'n state" where
  "draw_phase lib sampler a gf df s0 =
     (let (G, s1) = to_networkx_graph sampler s0
      in (case call_graph_func lib gf (topology_shape sampler) s1 of
            (Inl err, s2) \<Rightarrow> (Inl err, s2)
          | (Inr T, s2) \<Rightarrow>
              (let ((en, ncol, ee, ecol), s3) = compute_defects T G (ng_color a) (ok_color a) s2
               in (case plt_figure lib (figsize a) s3 of
                     (Inl err, s4) \<Rightarrow> (Inl err, s4)
                   | (Inr u, s4) \<Rightarrow>
                       (let (ax, s5) = plt_axes s4
                        in (case call_draw_func lib df T ncol ecol 1 ax s5 of
                              (Inl err, s6) \<Rightarrow> (Inl err, s6)
                            | (Inr u, s6) \<Rightarrow> (Inr ax, s6)))))))"

text \<open>
  Lines 75 to 81: show or save, then clear.
  \<^verbatim>\<open>
    if out_path is None:
        plt.show()
    else:
        os.makedirs(Path(out_path).parent, exist_ok=True)
        plt.savefig(out_path)
    plt.clf()
  \<close>
\<close>

definition output_phase :: "'n libs \<Rightarrow> args \<Rightarrow> 'n state \<Rightarrow> (error + unit) \<times> 'n state" where
  "output_phase lib a s7 =
     (case out_path a of
        None \<Rightarrow> (Inr (), plt_clf (plt_show lib s7))
      | Some p \<Rightarrow>
          (case os_makedirs_parent lib p s7 of
             (Inl err, s8) \<Rightarrow> (Inl err, s8)
           | (Inr u, s8) \<Rightarrow>
               (case plt_savefig lib p s8 of
                  (Inl err, s9) \<Rightarrow> (Inl err, s9)
                | (Inr u, s9) \<Rightarrow> (Inr (), plt_clf s9))))"

text \<open>
  The whole function: a \<^verbatim>\<open>raise\<close>, of the function or of a library call, ends it with the
  state as it is at that line.
\<close>

definition plot_working_graph ::
  "'n libs \<Rightarrow> 'n sampler \<Rightarrow> args \<Rightarrow> 'n state \<Rightarrow> (error + unit) \<times> 'n state" where
  "plot_working_graph lib sampler a s0 =
     (case select_funcs (topology_type sampler) of
        Inl err \<Rightarrow> (Inl err, s0)
      | Inr (gf, df) \<Rightarrow>
          (case draw_phase lib sampler a gf df s0 of
             (Inl err, s6) \<Rightarrow> (Inl err, s6)
           | (Inr ax, s6) \<Rightarrow>
               (case rectangle_step (draw_rectangle a) (chip_id sampler) ax s6 of
                  (Inl err, s7) \<Rightarrow> (Inl err, s7)
                | (Inr u, s7) \<Rightarrow> output_phase lib a s7)))"

section \<open>Concrete inputs\<close>

text \<open>
  The graphs of the single-missing-node example, as \<^verbatim>\<open>add_node\<close> and \<^verbatim>\<open>add_edge\<close> build them:
  the lattice has nodes 1, 2, 3 and edges (1,2), (2,3); the working graph has nodes 1 and 3
  and no edge.
\<close>

definition T3 :: "int graph" where
  "T3 = [(1, [2]), (2, [1, 3]), (3, [2])]"

definition G3 :: "int graph" where
  "G3 = [(1, []), (3, [])]"

text \<open>
  The same lattice built from node 3 downwards, so that its view reports the edges as
  (3,2) and (2,1); a working graph of the lattice that misses only the edge (2,3); and
  one edge between nodes 1 and 2, once reported as (1,2) and once as (2,1).
\<close>

definition T3_rev :: "int graph" where
  "T3_rev = [(3, [2]), (2, [3, 1]), (1, [2])]"

definition G3_one_edge :: "int graph" where
  "G3_one_edge = [(1, [2]), (2, [1]), (3, [])]"

definition T12 :: "int graph" where
  "T12 = [(1, [2]), (2, [1])]"

definition G21 :: "int graph" where
  "G21 = [(2, [1]), (1, [2])]"

text \<open>
  A stand-in for the libraries (a shape has at least one number, a figure has a positive
  size, three colours are known),
  three samplers (a Zephyr device, whose topology the entry point does not support, a
  DW_2000Q_6 and an Advantage device), the default arguments of the entry point, arguments
  that ask for the rectangle, once with a figure size no figure can have and once with a
  colour that is not known, the state before the first call, and a state in which the
  lattice of the example is drawn on the one axes of the current figure.
\<close>

definition toy_libs :: "int libs" where
  "toy_libs =
     \<lparr>chimera_graph =
        (\<lambda>shape. if shape = [] then Inl (Other_exception ''TypeError'') else Inr T3),
      pegasus_graph =
        (\<lambda>shape. if shape = [] then Inl (Other_exception ''TypeError'') else Inr T3),
      figure_raises =
        (\<lambda>(w, h). if 0 < w \<and> 0 < h then None
                  else Some (ValueError ''figure size must be positive finite'')),
      draw_raises =
        (\<lambda>df T ncol ecol.
           if list_all (\<lambda>c. c \<in> set [''red'', ''blue'', ''green'']) (ncol @ ecol) then None
           else Some (ValueError ''not a valid color'', [])),
      makedirs_raises = (\<lambda>p. None),
      savefig_raises = (\<lambda>p. None),
      show_closes_figures = True\<rparr>"

definition sampler_zephyr :: "int sampler" where
  "sampler_zephyr =
     \<lparr>topology_type = ''zephyr'', topology_shape = [4, 4],
      chip_id = ''Advantage2_prototype1.1'', working_graph = G3\<rparr>"

definition sampler_2000Q :: "int sampler" where
  "sampler_2000Q =
     \<lparr>topology_type = ''chimera'', topology_shape = [16, 16, 4],
      chip_id = ''DW_2000Q_6'', working_graph = G3\<rparr>"

definition sampler_advantage :: "int sampler" where
  "sampler_advantage =
     \<lparr>topology_type = ''pegasus'', topology_shape = [16],
      chip_id = ''Advantage_system4.1'', working_graph = G3\<rparr>"

definition default_args :: args where
  "default_args =
     \<lparr>out_path = None, figsize = (8, 8), ng_color = ''red'', ok_color = ''blue'',
      draw_rectangle = False\<rparr>"

definition rectangle_args :: args where
  "rectangle_args =
     \<lparr>out_path = Some ''out/working_graph.png'', figsize = (8, 8), ng_color = ''red'',
      ok_color = ''blue'', draw_rectangle = True\<rparr>"

definition negative_size_args :: args where
  "negative_size_args =
     \<lparr>out_path = None, figsize = (- 1, 8), ng_color = ''red'', ok_color = ''blue'',
      draw_rectangle = True\<rparr>"

definition unknown_color_args :: args where
  "unknown_color_args =
     \<lparr>out_path = None, figsize = (8, 8), ng_color = ''rouge'', ok_color = ''blue'',
      draw_rectangle = True\<rparr>"

definition state_drawn :: "int state" where
  "state_drawn =
     \<lparr>graphs = [G3, T3],
      figures = [\<lparr>fig_figsize = (8, 8),
                  fig_axes = [[Graph_artist Draw_chimera T3 [''blue'', ''red'', ''blue'']
                                 [''red'', ''red''] 1]]\<rparr>],
      calls = [To_networkx_graph, Graph_func Chimera_graph [16, 16, 4], Plt_figure (8, 8),
               Plt_axes, Draw_func Draw_chimera]\<rparr>"

definition state0 :: "int state" where
  "state0 = \<lparr>graphs = [], figures = [], calls = []\<rparr>"

section \<open>The invariant of a graph built by its methods\<close>

lemma graph_inv_alt:
  "graph_inv g \<longleftrightarrow> distinct (map fst g) \<and> (\<forall>(u, nu) \<in> set g. distinct nu) \<and> sym_adj g"
proof (cases "distinct (map fst g)")
  case True
  then have m: "\<And>v nv. map_of g v = Some nv \<longleftrightarrow> (v, nv) \<in> set g" by simp
  have "\<And>u v. (case map_of g v of None \<Rightarrow> False | Some nv \<Rightarrow> u \<in> set nv) \<longleftrightarrow>
    (\<exists>nv. (v, nv) \<in> set g \<and> u \<in> set nv)"
    by (auto simp: m [symmetric] split: option.splits)
  then show ?thesis
    unfolding graph_inv_def sym_adj_def list_all_iff by (auto simp: True)
next
  case False
  then show ?thesis by (simp add: graph_inv_def)
qed

lemma fst_set_adj: "map fst (set_adj u v g) = map fst g"
  by (induction g) (auto simp: set_adj_def)

lemma set_adj_mem:
  "(n, ns) \<in> set (set_adj u v g) \<longleftrightarrow>
     (\<exists>ms. (n, ms) \<in> set g \<and> ns = (if n = u \<and> v \<notin> set ms then ms @ [v] else ms))"
  by (induction g) (auto simp: set_adj_def)

lemma set_adj_distinct:
  "\<forall>(a, na) \<in> set g. distinct na \<Longrightarrow> \<forall>(a, na) \<in> set (set_adj u v g). distinct na"
  by (fastforce simp: set_adj_mem)

lemma set_adj_back:
  "(n, ns) \<in> set (set_adj u v g) \<Longrightarrow>
   \<exists>ms. (n, ms) \<in> set g \<and> set ns = set ms \<union> (if n = u then {v} else {})"
  by (auto simp: set_adj_mem)

lemma set_adj_forth:
  "(n, ms) \<in> set g \<Longrightarrow>
   \<exists>ns. (n, ns) \<in> set (set_adj u v g) \<and> set ns = set ms \<union> (if n = u then {v} else {})"
  unfolding set_adj_mem by (cases "n = u \<and> v \<notin> set ms") auto

lemma graph_inv_empty: "graph_inv []"
  by (simp add: graph_inv_def)

lemma graph_inv_add_node:
  assumes "graph_inv g"
  shows "graph_inv (add_node g n)"
proof (cases "n \<in> set (map fst g)")
  case True
  with assms show ?thesis by (simp add: add_node_def)
next
  case False
  from assms have d: "distinct (map fst g)" and dn: "\<forall>(a, na) \<in> set g. distinct na"
    and sy: "sym_adj g" by (simp_all add: graph_inv_alt)
  have "sym_adj (g @ [(n, [])])"
    unfolding sym_adj_def
  proof (intro allI impI)
    fix a na b
    assume "(a, na) \<in> set (g @ [(n, [])])" and b: "b \<in> set na"
    then have "(a, na) \<in> set g" by auto
    with sy b obtain nb where "(b, nb) \<in> set g" "a \<in> set nb"
      unfolding sym_adj_def by blast
    then show "\<exists>nb. (b, nb) \<in> set (g @ [(n, [])]) \<and> a \<in> set nb" by auto
  qed
  with d dn False show ?thesis by (auto simp: graph_inv_alt add_node_def)
qed

lemma graph_inv_add_edge:
  assumes "graph_inv g"
  shows "graph_inv (add_edge g u v)"
proof -
  let ?h = "add_node (add_node g u) v"
  let ?k = "set_adj u v ?h"
  have h: "graph_inv ?h" by (intro graph_inv_add_node assms)
  have ku: "u \<in> fst ` set ?h" and kv: "v \<in> fst ` set ?h"
    by (auto simp: add_node_def)
  from h have d: "distinct (map fst ?h)" and dn: "\<forall>(a, na) \<in> set ?h. distinct na"
    and sy: "sym_adj ?h" by (simp_all add: graph_inv_alt)
  have e: "add_edge g u v = set_adj v u ?k" by (simp add: add_edge_def)
  have 1: "distinct (map fst (add_edge g u v))" using d by (simp add: e fst_set_adj)
  have 2: "\<forall>(a, na) \<in> set (add_edge g u v). distinct na"
    unfolding e by (intro set_adj_distinct dn)
  have old: "\<exists>ma. (a, ma) \<in> set ?h \<and>
      set na = set ma \<union> (if a = u then {v} else {}) \<union> (if a = v then {u} else {})"
    if "(a, na) \<in> set (add_edge g u v)" for a na
  proof -
    from that obtain ka where ka: "(a, ka) \<in> set ?k"
      "set na = set ka \<union> (if a = v then {u} else {})"
      unfolding e using set_adj_back by fast
    from set_adj_back [OF ka(1)] obtain ma where "(a, ma) \<in> set ?h"
      "set ka = set ma \<union> (if a = u then {v} else {})" by blast
    with ka(2) show ?thesis by blast
  qed
  have new: "\<exists>nc. (c, nc) \<in> set (add_edge g u v) \<and>
      set nc = set mc \<union> (if c = u then {v} else {}) \<union> (if c = v then {u} else {})"
    if "(c, mc) \<in> set ?h" for c mc
  proof -
    from set_adj_forth [OF that, of u v] obtain kc where kc: "(c, kc) \<in> set ?k"
      "set kc = set mc \<union> (if c = u then {v} else {})" by blast
    from set_adj_forth [OF kc(1), of v u] obtain nc where "(c, nc) \<in> set (add_edge g u v)"
      "set nc = set kc \<union> (if c = v then {u} else {})" unfolding e by blast
    with kc(2) show ?thesis by blast
  qed
  have 3: "sym_adj (add_edge g u v)"
    unfolding sym_adj_def
  proof (intro allI impI)
    fix a na b
    assume a: "(a, na) \<in> set (add_edge g u v)" and b: "b \<in> set na"
    from old [OF a] obtain ma where ma: "(a, ma) \<in> set ?h"
      and na: "set na = set ma \<union> (if a = u then {v} else {}) \<union> (if a = v then {u} else {})"
      by blast
    show "\<exists>nb. (b, nb) \<in> set (add_edge g u v) \<and> a \<in> set nb"
    proof (cases "b \<in> set ma")
      case True
      with sy ma obtain mb where mb: "(b, mb) \<in> set ?h" "a \<in> set mb"
        unfolding sym_adj_def by blast
      from new [OF mb(1)] mb(2) show ?thesis by blast
    next
      case False
      with b na have ab: "(a = u \<and> b = v) \<or> (a = v \<and> b = u)" by (auto split: if_splits)
      from ku obtain mu where mu: "(u, mu) \<in> set ?h" by auto
      from kv obtain mv where mv: "(v, mv) \<in> set ?h" by auto
      from new [OF mu] new [OF mv] ab show ?thesis by auto
    qed
  qed
  from 1 2 3 show ?thesis by (simp add: graph_inv_alt)
qed

lemma concrete_graphs_built:
  "add_edge (add_edge [] 1 2) 2 3 = T3 \<and> add_node (add_node [] 1) 3 = G3 \<and>
   add_edge (add_edge [] 3 2) 2 1 = T3_rev \<and> add_node (add_edge [] 1 2) 3 = G3_one_edge \<and>
   add_edge [] 1 2 = T12 \<and> add_edge [] 2 1 = G21"
  by (simp add: add_edge_def add_node_def set_adj_def T3_def G3_def T3_rev_def
      G3_one_edge_def T12_def G21_def)

section \<open>The edge view of a well-formed graph\<close>

lemma edges_loop_sound:
  "(a, b) \<in> set (edges_loop seen g) \<Longrightarrow> \<exists>nbrs. (a, nbrs) \<in> set g \<and> b \<in> set nbrs"
  by (induction seen g rule: edges_loop.induct) auto

lemma edges_loop_complete:
  "distinct (map fst g) \<Longrightarrow> (u, nu) \<in> set g \<Longrightarrow> v \<in> set nu \<Longrightarrow> (v, nv) \<in> set g \<Longrightarrow>
   u \<in> set nv \<Longrightarrow> u \<notin> seen \<Longrightarrow> v \<notin> seen \<Longrightarrow>
   (u, v) \<in> set (edges_loop seen g) \<or> (v, u) \<in> set (edges_loop seen g)"
proof (induction seen g rule: edges_loop.induct)
  case (1 seen)
  then show ?case by simp
next
  case (2 seen n nbrs rest)
  show ?case
  proof (cases "n = u \<or> n = v")
    case True
    with 2 show ?thesis by (auto simp: rev_image_eqI)
  next
    case False
    with 2 have "(u, v) \<in> set (edges_loop (insert n seen) rest) \<or>
      (v, u) \<in> set (edges_loop (insert n seen) rest)"
      by auto
    then show ?thesis by auto
  qed
qed

lemma graph_inv_sym:
  "graph_inv g \<Longrightarrow> (u, nu) \<in> set g \<Longrightarrow> v \<in> set nu \<Longrightarrow> \<exists>nv. map_of g v = Some nv \<and> u \<in> set nv"
proof -
  assume inv: "graph_inv g" and e: "(u, nu) \<in> set g" and v: "v \<in> set nu"
  from inv e have "list_all (\<lambda>v. case map_of g v of None \<Rightarrow> False | Some nv \<Rightarrow> u \<in> set nv) nu"
    unfolding graph_inv_def list_all_iff by fastforce
  with v have "case map_of g v of None \<Rightarrow> False | Some nv \<Rightarrow> u \<in> set nv"
    by (simp add: list_all_iff)
  then show ?thesis by (cases "map_of g v") auto
qed

lemma edges_contains_iff:
  assumes "graph_inv g"
  shows "edges_contains g (u, v) \<longleftrightarrow>
    (u, v) \<in> set (edges_iter g) \<or> (v, u) \<in> set (edges_iter g)"
proof
  assume "edges_contains g (u, v)"
  then obtain a b na where ab: "(a = u \<and> b = v) \<or> (a = v \<and> b = u)"
    and na: "map_of g a = Some na" "b \<in> set na"
    by (auto simp: edges_contains_def split: option.splits if_splits)
  from na have ina: "(a, na) \<in> set g" by (simp add: map_of_SomeD)
  from graph_inv_sym [OF assms ina na(2)] obtain nb where
    nb: "map_of g b = Some nb" "a \<in> set nb" by blast
  then have inb: "(b, nb) \<in> set g" by (simp add: map_of_SomeD)
  from assms have d: "distinct (map fst g)" by (simp add: graph_inv_def)
  from edges_loop_complete [OF d ina na(2) inb nb(2), of "{}"]
  have "(a, b) \<in> set (edges_iter g) \<or> (b, a) \<in> set (edges_iter g)"
    by (simp add: edges_iter_def)
  with ab show "(u, v) \<in> set (edges_iter g) \<or> (v, u) \<in> set (edges_iter g)" by auto
next
  assume "(u, v) \<in> set (edges_iter g) \<or> (v, u) \<in> set (edges_iter g)"
  then obtain a b where ab: "(a = u \<and> b = v) \<or> (a = v \<and> b = u)"
    and e: "(a, b) \<in> set (edges_iter g)" by auto
  from edges_loop_sound [of a b "{}" g] e obtain na where
    ina: "(a, na) \<in> set g" and b: "b \<in> set na" by (auto simp: edges_iter_def)
  from assms have d: "distinct (map fst g)" by (simp add: graph_inv_def)
  from d ina have ma: "map_of g a = Some na" by simp
  from graph_inv_sym [OF assms ina b] obtain nb where
    nb: "map_of g b = Some nb" "a \<in> set nb" by blast
  from ab ma b nb show "edges_contains g (u, v)"
    by (auto simp: edges_contains_def)
qed

lemma uedge_in_image:
  "uedge (u, v) \<in> uedge ` S \<longleftrightarrow> (u, v) \<in> S \<or> (v, u) \<in> S"
proof
  assume "uedge (u, v) \<in> uedge ` S"
  then obtain x where x: "x \<in> S" "uedge (u, v) = uedge x" by blast
  obtain a b where ab: "x = (a, b)" by (cases x)
  from x ab have "(a = u \<and> b = v) \<or> (a = v \<and> b = u)"
    by (auto simp: uedge_def doubleton_eq_iff)
  with x ab show "(u, v) \<in> S \<or> (v, u) \<in> S" by auto
next
  assume "(u, v) \<in> S \<or> (v, u) \<in> S"
  moreover have "uedge (v, u) = uedge (u, v)" by (auto simp: uedge_def)
  ultimately show "uedge (u, v) \<in> uedge ` S" by (metis image_eqI)
qed

lemma edges_contains_uedge:
  "graph_inv g \<Longrightarrow> edges_contains g e \<longleftrightarrow> uedge e \<in> uedge ` set (edges_iter g)"
  by (cases e) (simp add: edges_contains_iff uedge_in_image)

lemma error_node_diff: "error_node T G = set (nodes_iter T) - set (nodes_iter G)"
  by (auto simp: error_node_def nodes_contains_def nodes_iter_def)

lemma error_edge_Collect:
  "graph_inv G \<Longrightarrow>
   error_edge T G = {e \<in> set (edges_iter T). uedge e \<notin> uedge ` set (edges_iter G)}"
  by (auto simp: error_edge_def edges_contains_uedge)

lemmas view_defs = graph_inv_def nodes_iter_def nodes_contains_def edges_iter_def
  edges_contains_def error_node_def error_edge_def node_color_def edge_color_def

section \<open>The entry point, case by case\<close>

lemma draw_phase_ok:
  assumes "apply_graph_func lib gf (topology_shape sampler) = Inr T"
    and "figure_raises lib (figsize a) = None"
    and "draw_raises lib df T (node_color T (working_graph sampler) (ng_color a) (ok_color a))
           (edge_color T (working_graph sampler) (ng_color a) (ok_color a)) = None"
  shows "draw_phase lib sampler a gf df s =
     (Inr 0, s\<lparr>graphs := graphs s @ [working_graph sampler, T],
            figures := figures s @
              [\<lparr>fig_figsize = figsize a,
                fig_axes = [[Graph_artist df T
                  (node_color T (working_graph sampler) (ng_color a) (ok_color a))
                  (edge_color T (working_graph sampler) (ng_color a) (ok_color a)) 1]]\<rparr>],
            calls := calls s @ [To_networkx_graph, Graph_func gf (topology_shape sampler),
              Plt_figure (figsize a), Plt_axes, Draw_func df]\<rparr>)"
  using assms
  by (simp add: draw_phase_def to_networkx_graph_def call_graph_func_def compute_defects_def
      plt_figure_def plt_axes_def gcf_def call_draw_func_def add_artist_def nth_append Let_def)

lemma draw_phase_generator_raises:
  assumes "apply_graph_func lib gf (topology_shape sampler) = Inl err"
  shows "draw_phase lib sampler a gf df s =
     (Inl err, s\<lparr>graphs := graphs s @ [working_graph sampler],
              calls := calls s @ [To_networkx_graph, Graph_func gf (topology_shape sampler)]\<rparr>)"
  using assms
  by (simp add: draw_phase_def to_networkx_graph_def call_graph_func_def)

lemma draw_phase_figure_raises:
  assumes "apply_graph_func lib gf (topology_shape sampler) = Inr T"
    and "figure_raises lib (figsize a) = Some err"
  shows "draw_phase lib sampler a gf df s =
     (Inl err, s\<lparr>graphs := graphs s @ [working_graph sampler, T],
              calls := calls s @ [To_networkx_graph, Graph_func gf (topology_shape sampler),
                Plt_figure (figsize a)]\<rparr>)"
  using assms
  by (simp add: draw_phase_def to_networkx_graph_def call_graph_func_def compute_defects_def
      plt_figure_def)

lemma draw_phase_draw_raises:
  assumes "apply_graph_func lib gf (topology_shape sampler) = Inr T"
    and "figure_raises lib (figsize a) = None"
    and "draw_raises lib df T (node_color T (working_graph sampler) (ng_color a) (ok_color a))
           (edge_color T (working_graph sampler) (ng_color a) (ok_color a)) = Some (err, left)"
  shows "fst (draw_phase lib sampler a gf df s) = Inl err \<and>
     calls (snd (draw_phase lib sampler a gf df s)) =
       calls s @ [To_networkx_graph, Graph_func gf (topology_shape sampler),
         Plt_figure (figsize a), Plt_axes, Draw_func df]"
  using assms
  by (simp add: draw_phase_def to_networkx_graph_def call_graph_func_def compute_defects_def
      plt_figure_def plt_axes_def gcf_def call_draw_func_def nth_append Let_def)

lemma draw_phase_Inr:
  assumes "draw_phase lib sampler a gf df s = (Inr ax, s6)"
  shows "\<exists>T. apply_graph_func lib gf (topology_shape sampler) = Inr T \<and>
     figure_raises lib (figsize a) = None \<and>
     draw_raises lib df T (node_color T (working_graph sampler) (ng_color a) (ok_color a))
           (edge_color T (working_graph sampler) (ng_color a) (ok_color a)) = None"
proof (cases "apply_graph_func lib gf (topology_shape sampler)")
  case (Inl err)
  from draw_phase_generator_raises [OF Inl] assms show ?thesis by simp
next
  case (Inr T)
  show ?thesis
  proof (cases "figure_raises lib (figsize a)")
    case (Some err)
    from draw_phase_figure_raises [OF Inr Some] assms show ?thesis by simp
  next
    case None
    show ?thesis
    proof (cases "draw_raises lib df T (node_color T (working_graph sampler) (ng_color a) (ok_color a))
           (edge_color T (working_graph sampler) (ng_color a) (ok_color a))")
      case n: None
      with Inr None show ?thesis by blast
    next
      case (Some p)
      obtain err left where p: "p = (err, left)" by (cases p)
      from draw_phase_draw_raises [OF Inr None Some [unfolded p], of s] assms
      show ?thesis by simp
    qed
  qed
qed

lemma output_phase_Inr:
  assumes "fst (output_phase lib a s7) = Inr ()" and "figures s7 \<noteq> []"
  shows "figures (snd (output_phase lib a s7)) =
     (if out_path a = None \<and> show_closes_figures lib
      then [\<lparr>fig_figsize = rc_figsize, fig_axes = []\<rparr>]
      else butlast (figures s7) @ [(last (figures s7))\<lparr>fig_axes := []\<rparr>]) \<and>
     last (calls (snd (output_phase lib a s7))) = Plt_clf"
proof (cases "out_path a")
  case None
  with assms(2) show ?thesis
    by (simp add: output_phase_def plt_clf_def plt_show_def gcf_def Let_def)
next
  case (Some p)
  with assms show ?thesis
    by (auto simp: output_phase_def plt_clf_def os_makedirs_parent_def plt_savefig_def
        gcf_def Let_def split: option.splits)
qed

lemma plot_unsupported:
  "topology_type sampler \<noteq> ''chimera'' \<Longrightarrow> topology_type sampler \<noteq> ''pegasus'' \<Longrightarrow>
   plot_working_graph lib sampler a s =
     (Inl (ValueError (''support chimera or pegasus, unsupported '' @ topology_type sampler @ ''.'')), s)"
  by (simp add: plot_working_graph_def select_funcs_def)

lemma plot_supported:
  assumes "select_funcs (topology_type sampler) = Inr (gf, df)"
  shows "plot_working_graph lib sampler a s =
     (case draw_phase lib sampler a gf df s of
        (Inl err, s6) \<Rightarrow> (Inl err, s6)
      | (Inr ax, s6) \<Rightarrow>
          (case rectangle_step (draw_rectangle a) (chip_id sampler) ax s6 of
             (Inl err, s7) \<Rightarrow> (Inl err, s7)
           | (Inr u, s7) \<Rightarrow> output_phase lib a s7))"
  by (simp add: plot_working_graph_def assms)

lemma select_funcs_cases:
  obtains "topology_type sampler \<noteq> ''chimera''" "topology_type sampler \<noteq> ''pegasus''"
  | gf df where "select_funcs (topology_type sampler) = Inr (gf, df)"
proof (cases "topology_type sampler = ''chimera'' \<or> topology_type sampler = ''pegasus''")
  case True
  then have "\<exists>gf df. select_funcs (topology_type sampler) = Inr (gf, df)"
    by (auto simp: select_funcs_def)
  with that show ?thesis by blast
next
  case False
  with that show ?thesis by blast
qed

lemma plot_returns:
  assumes "fst (plot_working_graph lib sampler a s) = Inr ()"
  shows "figures (snd (plot_working_graph lib sampler a s)) =
           (if out_path a = None \<and> show_closes_figures lib
            then [\<lparr>fig_figsize = rc_figsize, fig_axes = []\<rparr>]
            else figures s @ [\<lparr>fig_figsize = figsize a, fig_axes = []\<rparr>]) \<and>
         last (calls (snd (plot_working_graph lib sampler a s))) = Plt_clf"
proof (cases rule: select_funcs_cases [of sampler])
  case 1
  with assms show ?thesis by (simp add: plot_unsupported)
next
  case (2 gf df)
  note p = plot_supported [OF 2, of lib a s]
  obtain r s6 where d: "draw_phase lib sampler a gf df s = (r, s6)" by (cases "draw_phase lib sampler a gf df s")
  show ?thesis
  proof (cases r)
    case (Inl err)
    with assms p d show ?thesis by simp
  next
    case (Inr ax)
    from draw_phase_Inr [OF d [unfolded Inr]] obtain T where
      T: "apply_graph_func lib gf (topology_shape sampler) = Inr T"
      "figure_raises lib (figsize a) = None"
      "draw_raises lib df T (node_color T (working_graph sampler) (ng_color a) (ok_color a))
           (edge_color T (working_graph sampler) (ng_color a) (ok_color a)) = None" by blast
    note ok = draw_phase_ok [OF T, of s]
    from ok d Inr have ax: "ax = 0" by simp
    show ?thesis
    proof (cases "draw_rectangle a")
      case False
      with assms have o: "fst (output_phase lib a (snd (draw_phase lib sampler a gf df s))) = Inr ()"
        by (simp add: p ok rectangle_step_def)
      have "plot_working_graph lib sampler a s = output_phase lib a (snd (draw_phase lib sampler a gf df s))"
        using False by (simp add: p ok rectangle_step_def)
      with output_phase_Inr [OF o] show ?thesis by (simp add: ok)
    next
      case True
      show ?thesis
      proof (cases "chip_id sampler = ''DW_2000Q_6''")
        case c: False
        with assms True show ?thesis by (simp add: p ok rectangle_step_def)
      next
        case c: True
        let ?s7 = "add_patch 0 hardcoded_rectangle (snd (draw_phase lib sampler a gf df s))"
        have e: "plot_working_graph lib sampler a s = output_phase lib a ?s7"
          using True c by (simp add: p ok rectangle_step_def)
        with assms have o: "fst (output_phase lib a ?s7) = Inr ()" by simp
        have f: "figures ?s7 \<noteq> []" by (simp add: ok add_patch_def add_artist_def)
        from output_phase_Inr [OF o f] show ?thesis
          by (simp add: e ok add_patch_def add_artist_def)
      qed
    qed
  qed
qed

lemma toy_draws:
  "apply_graph_func toy_libs gf (x # shape) = Inr T3 \<and>
   figure_raises toy_libs (8, 8) = None \<and>
   node_color T3 G3 ''red'' ''blue'' = [''blue'', ''red'', ''blue''] \<and>
   edge_color T3 G3 ''red'' ''blue'' = [''red'', ''red''] \<and>
   draw_raises toy_libs df T3 [''blue'', ''red'', ''blue''] [''red'', ''red''] = None"
  by (cases gf) (simp_all add: toy_libs_def apply_graph_func_def view_defs T3_def G3_def)

lemma toy_selects:
  "select_funcs (topology_type sampler_2000Q) = Inr (Chimera_graph, Draw_chimera) \<and>
   select_funcs (topology_type sampler_advantage) = Inr (Pegasus_graph, Draw_pegasus)"
  by (simp add: select_funcs_def sampler_2000Q_def sampler_advantage_def)

section \<open>Defect sets and colours\<close>

text \<open>
  C4. Defect sets: the defect node set is the node set of the lattice minus that of the
  working graph, and the defect edge set is the edge set of the lattice minus that of the
  working graph, edges compared as unordered pairs. Both are subsets of the lattice's
  nodes and edges, and an edge of the lattice is a defect exactly when it is absent from
  the edges of the working graph: the defect nodes play no part.
\<close>

theorem defect_sets:
  assumes "graph_inv G"
  shows "error_node T G = set (nodes_iter T) - set (nodes_iter G) \<and>
         uedge ` error_edge T G = uedge ` set (edges_iter T) - uedge ` set (edges_iter G) \<and>
         error_node T G \<subseteq> set (nodes_iter T) \<and>
         error_edge T G \<subseteq> set (edges_iter T) \<and>
         error_edge T G = {e \<in> set (edges_iter T). uedge e \<notin> uedge ` set (edges_iter G)}"
proof -
  note ee = error_edge_Collect [OF assms, of T]
  have "uedge ` error_edge T G = uedge ` set (edges_iter T) - uedge ` set (edges_iter G)"
    unfolding ee by auto
  moreover have "error_node T G \<subseteq> set (nodes_iter T)"
    by (auto simp: error_node_diff)
  moreover have "error_edge T G \<subseteq> set (edges_iter T)"
    unfolding ee by auto
  ultimately show ?thesis using ee error_node_diff [of T G] by blast
qed

theorem defect_sets_witness:
  "graph_inv G3_one_edge \<and> error_node T3 G3_one_edge = {} \<and>
   error_edge T3 G3_one_edge = {(2, 3)} \<and> error_node T3 G3 = {2} \<and>
   error_edge T3 G3 = {(1, 2), (2, 3)}"
  using defect_sets [of G3_one_edge T3]
  by (simp add: view_defs T3_def G3_def G3_one_edge_def)

text \<open>
  C1. Edge orientation invariance: when the lattice reports an edge as (a,b) and the
  working graph reports the same edge as (b,a), the edge is not in the defect edge set,
  in either orientation, and no defect edge is that edge as an unordered pair.
\<close>

theorem edge_orientation_invariance:
  assumes "graph_inv G" and "(a, b) \<in> set (edges_iter T)" and "(b, a) \<in> set (edges_iter G)"
  shows "(a, b) \<notin> error_edge T G \<and> (b, a) \<notin> error_edge T G \<and>
         uedge (a, b) \<notin> uedge ` error_edge T G"
proof -
  from assms(3) have "uedge (a, b) \<in> uedge ` set (edges_iter G)"
    by (simp add: uedge_in_image)
  moreover have "uedge (b, a) = uedge (a, b)" by (auto simp: uedge_def)
  ultimately show ?thesis
    by (auto simp: error_edge_Collect [OF assms(1)])
qed

theorem edge_orientation_invariance_witness:
  "graph_inv G21 \<and> (1, 2) \<in> set (edges_iter T12) \<and> (2, 1) \<in> set (edges_iter G21) \<and>
   (1, 2) \<notin> error_edge T12 G21 \<and> error_edge T12 G21 = {} \<and>
   edge_color T12 G21 ''red'' ''blue'' = [''blue'']"
  using edge_orientation_invariance [of G21 1 2 T12]
  by (simp add: view_defs T12_def G21_def)

text \<open>
  C2. No-defect case: when the working graph has the node set of the lattice and, as
  unordered pairs, its edge set, both defect sets are empty and every entry of the two
  colour lists is the ok colour.
\<close>

theorem no_defect_case:
  assumes "graph_inv G"
    and "set (nodes_iter G) = set (nodes_iter T)"
    and "uedge ` set (edges_iter G) = uedge ` set (edges_iter T)"
  shows "error_node T G = {} \<and> error_edge T G = {} \<and>
         node_color T G ng ok = replicate (length (nodes_iter T)) ok \<and>
         edge_color T G ng ok = replicate (length (edges_iter T)) ok"
proof -
  have n: "error_node T G = {}" by (simp add: error_node_diff assms(2))
  have e: "error_edge T G = {}"
    unfolding error_edge_Collect [OF assms(1)] assms(3) by auto
  show ?thesis
    by (simp add: n e node_color_def edge_color_def map_replicate_const)
qed

theorem no_defect_case_witness:
  "graph_inv T3_rev \<and> set (nodes_iter T3_rev) = set (nodes_iter T3) \<and>
   edges_iter T3_rev = [(3, 2), (2, 1)] \<and> edges_iter T3 = [(1, 2), (2, 3)] \<and>
   uedge ` set (edges_iter T3_rev) = uedge ` set (edges_iter T3) \<and>
   error_node T3 T3_rev = {} \<and> error_edge T3 T3_rev = {} \<and>
   node_color T3 T3_rev ''red'' ''blue'' = [''blue'', ''blue'', ''blue''] \<and>
   edge_color T3 T3_rev ''red'' ''blue'' = [''blue'', ''blue'']"
proof -
  have inv: "graph_inv T3_rev" by (simp add: view_defs T3_rev_def)
  have n: "set (nodes_iter T3_rev) = set (nodes_iter T3)"
    by (auto simp: view_defs T3_rev_def T3_def)
  have e1: "edges_iter T3_rev = [(3, 2), (2, 1)]" by (simp add: view_defs T3_rev_def)
  have e2: "edges_iter T3 = [(1, 2), (2, 3)]" by (simp add: view_defs T3_def)
  have u: "uedge ` set (edges_iter T3_rev) = uedge ` set (edges_iter T3)"
    unfolding e1 e2 by (auto simp: uedge_def)
  from no_defect_case [OF inv n u, of "''red''" "''blue''"] inv n e1 e2 u
  show ?thesis by (simp add: nodes_iter_def T3_def numeral_2_eq_2 numeral_3_eq_3)
qed

text \<open>
  C3. Single missing node: for a lattice with nodes 1, 2, 3 and edges (1,2), (2,3) and a
  working graph with nodes 1, 3 and no edge, the defect node set is {2}, the defect edges
  are the two edges of the lattice, node 2 gets the defect colour and nodes 1 and 3 the ok
  colour, and both edges get the defect colour.
\<close>

theorem single_missing_node:
  assumes "graph_inv G"
    and "set (nodes_iter T) = {1, 2, 3::int}"
    and "uedge ` set (edges_iter T) = {{1, 2}, {2, 3}}"
    and "set (nodes_iter G) = {1, 3}"
    and "set (edges_iter G) = {}"
  shows "error_node T G = {2} \<and>
         uedge ` error_edge T G = {{1, 2}, {2, 3}} \<and>
         node_color T G ng ok = map (\<lambda>v. if v = 2 then ng else ok) (nodes_iter T) \<and>
         edge_color T G ng ok = replicate (length (edges_iter T)) ng"
proof -
  have n: "error_node T G = {2}"
    unfolding error_node_diff assms(2) assms(4) by auto
  have e: "error_edge T G = set (edges_iter T)"
    unfolding error_edge_Collect [OF assms(1)] assms(5) by auto
  have "node_color T G ng ok = map (\<lambda>v. if v = 2 then ng else ok) (nodes_iter T)"
    by (simp add: node_color_def n)
  moreover have "edge_color T G ng ok = replicate (length (edges_iter T)) ng"
    by (simp add: edge_color_def e map_replicate_const cong: map_cong)
  ultimately show ?thesis using n e assms(3) by simp
qed

theorem single_missing_node_witness:
  "graph_inv G3 \<and> set (nodes_iter T3) = {1, 2, 3} \<and>
   uedge ` set (edges_iter T3) = {{1, 2}, {2, 3}} \<and> set (nodes_iter G3) = {1, 3} \<and>
   set (edges_iter G3) = {} \<and> error_node T3 G3 = {2} \<and> error_edge T3 G3 = {(1, 2), (2, 3)} \<and>
   node_color T3 G3 ''red'' ''blue'' = [''blue'', ''red'', ''blue''] \<and>
   edge_color T3 G3 ''red'' ''blue'' = [''red'', ''red'']"
proof -
  have inv: "graph_inv G3" by (simp add: view_defs G3_def)
  have n: "set (nodes_iter T3) = {1, 2, 3}" by (simp add: view_defs T3_def)
  have e: "edges_iter T3 = [(1, 2), (2, 3)]" by (simp add: view_defs T3_def)
  have u: "uedge ` set (edges_iter T3) = {{1, 2}, {2, 3}}"
    unfolding e by (simp add: uedge_def)
  have gn: "set (nodes_iter G3) = {1, 3}" by (simp add: view_defs G3_def)
  have ge: "set (edges_iter G3) = {}" by (simp add: view_defs G3_def)
  have ee: "error_edge T3 G3 = {(1, 2), (2, 3)}"
    by (simp add: view_defs T3_def G3_def)
  from single_missing_node [OF inv n u gn ge, of "''red''" "''blue''"] inv n u gn ge ee e
  show ?thesis by (simp add: nodes_iter_def T3_def)
qed

text \<open>
  C7. Order and length of the colour lists: the node colour list is as long as the node
  enumeration of the lattice and the edge colour list as long as its edge enumeration,
  and entry i of each list is the colour of the i-th node, respectively edge, of that
  enumeration.
\<close>

theorem order_preservation:
  "length (node_color T G ng ok) = length (nodes_iter T) \<and>
   length (edge_color T G ng ok) = length (edges_iter T) \<and>
   (\<forall>i < length (nodes_iter T).
      node_color T G ng ok ! i = (if nodes_iter T ! i \<in> error_node T G then ng else ok)) \<and>
   (\<forall>i < length (edges_iter T).
      edge_color T G ng ok ! i = (if edges_iter T ! i \<in> error_edge T G then ng else ok))"
  by (simp add: node_color_def edge_color_def)

theorem order_preservation_witness:
  "(1::nat) < length (nodes_iter T3) \<and> nodes_iter T3 ! 1 = 2 \<and>
   node_color T3 G3 ''red'' ''blue'' ! 1 = ''red'' \<and>
   (0::nat) < length (edges_iter T3) \<and> edges_iter T3 ! 0 = (1, 2) \<and>
   edge_color T3 G3 ''red'' ''blue'' ! 0 = ''red'' \<and>
   length (node_color T3 G3 ''red'' ''blue'') = 3 \<and>
   length (edge_color T3 G3 ''red'' ''blue'') = 2"
  using order_preservation [of T3 G3 "''red''" "''blue''"]
  by (simp add: view_defs T3_def G3_def)

section \<open>Topology selection\<close>

text \<open>
  C5. Topology selection: for "chimera" and for "pegasus" the selection returns a
  generator and drawer pair and does not fail; for every other topology type it fails
  with the ValueError that names the type, and the entry point then returns that error
  with the state as it found it: nothing is drawn, shown or written.
\<close>

theorem topology_selection:
  "select_funcs ''chimera'' = Inr (Chimera_graph, Draw_chimera) \<and>
   select_funcs ''pegasus'' = Inr (Pegasus_graph, Draw_pegasus) \<and>
   (topology_type sampler \<noteq> ''chimera'' \<and> topology_type sampler \<noteq> ''pegasus'' \<longrightarrow>
      select_funcs (topology_type sampler) =
        Inl (ValueError (''support chimera or pegasus, unsupported '' @ topology_type sampler @ ''.'')) \<and>
      plot_working_graph lib sampler a s =
        (Inl (ValueError (''support chimera or pegasus, unsupported '' @ topology_type sampler @ ''.'')), s))"
  by (simp add: select_funcs_def plot_working_graph_def)

theorem topology_selection_witness:
  "topology_type sampler_zephyr \<noteq> ''chimera'' \<and> topology_type sampler_zephyr \<noteq> ''pegasus'' \<and>
   select_funcs ''zephyr'' = Inl (ValueError ''support chimera or pegasus, unsupported zephyr.'') \<and>
   plot_working_graph toy_libs sampler_zephyr default_args state0 =
     (Inl (ValueError ''support chimera or pegasus, unsupported zephyr.''), state0)"
  using topology_selection [of sampler_zephyr toy_libs default_args state0]
  by (simp add: sampler_zephyr_def)

section \<open>The rectangle and the two failures\<close>

text \<open>
  C6. Region gating: when the rectangle is not requested the step does nothing and does
  not fail; when it is requested and the chip id is not DW_2000Q_6 it fails with the
  ValueError that names DW_2000Q_6 and the chip id; when it is requested and the chip id
  is DW_2000Q_6 it does not fail, and the rectangle, whose geometry is a constant, is then
  the last artist on the given axes of the current figure, the other figures being as
  they were. In the entry point, once the lattice is drawn (no library call of lines 52
  to 64 raised), a requested rectangle on another chip ends the call with that
  ValueError, and otherwise the figure handed to lines 75 to 81 holds the drawing,
  followed by the rectangle exactly when it was requested.
\<close>

theorem region_gating:
  "rectangle_step False chip ax s = (Inr (), s) \<and>
   (chip \<noteq> ''DW_2000Q_6'' \<longrightarrow>
      rectangle_step True chip ax s =
        (Inl (ValueError (''support DW_2000Q_6, unsupported '' @ chip @ ''.'')), s)) \<and>
   (figures s \<noteq> [] \<and> ax < length (fig_axes (last (figures s))) \<longrightarrow>
      fst (rectangle_step True ''DW_2000Q_6'' ax s) = Inr () \<and>
      fig_axes (last (figures (snd (rectangle_step True ''DW_2000Q_6'' ax s)))) ! ax =
        fig_axes (last (figures s)) ! ax @ [Patch_artist hardcoded_rectangle] \<and>
      Patch_artist hardcoded_rectangle \<in>
        set (fig_axes (last (figures (snd (rectangle_step True ''DW_2000Q_6'' ax s)))) ! ax) \<and>
      butlast (figures (snd (rectangle_step True ''DW_2000Q_6'' ax s))) = butlast (figures s) \<and>
      calls (snd (rectangle_step True ''DW_2000Q_6'' ax s)) = calls s @ [Add_patch]) \<and>
   hardcoded_rectangle =
     \<lparr>xy = (37 / 100, - (82 / 100)), width = 64 / 100, height = 83 / 100,
      ec = ''green'', fill = False, ls = ''--'', lw = ''2''\<rparr> \<and>
   (select_funcs (topology_type sampler) = Inr (gf, df) \<and>
    apply_graph_func lib gf (topology_shape sampler) = Inr T \<and>
    figure_raises lib (figsize a) = None \<and>
    draw_raises lib df T (node_color T (working_graph sampler) (ng_color a) (ok_color a))
      (edge_color T (working_graph sampler) (ng_color a) (ok_color a)) = None \<longrightarrow>
      (draw_rectangle a \<and> chip_id sampler \<noteq> ''DW_2000Q_6'' \<longrightarrow>
         fst (plot_working_graph lib sampler a s) =
           Inl (ValueError (''support DW_2000Q_6, unsupported '' @ chip_id sampler @ ''.''))) \<and>
      (draw_rectangle a \<and> chip_id sampler = ''DW_2000Q_6'' \<longrightarrow>
         (\<exists>s7. plot_working_graph lib sampler a s = output_phase lib a s7 \<and>
            figures s7 = figures s @
              [\<lparr>fig_figsize = figsize a,
                fig_axes = [[Graph_artist df T
                  (node_color T (working_graph sampler) (ng_color a) (ok_color a))
                  (edge_color T (working_graph sampler) (ng_color a) (ok_color a)) 1,
                  Patch_artist hardcoded_rectangle]]\<rparr>])) \<and>
      (\<not> draw_rectangle a \<longrightarrow>
         (\<exists>s7. plot_working_graph lib sampler a s = output_phase lib a s7 \<and>
            figures s7 = figures s @
              [\<lparr>fig_figsize = figsize a,
                fig_axes = [[Graph_artist df T
                  (node_color T (working_graph sampler) (ng_color a) (ok_color a))
                  (edge_color T (working_graph sampler) (ng_color a) (ok_color a)) 1]]\<rparr>])))"
proof -
  have step: "figures s \<noteq> [] \<and> ax < length (fig_axes (last (figures s))) \<longrightarrow>
      fst (rectangle_step True ''DW_2000Q_6'' ax s) = Inr () \<and>
      fig_axes (last (figures (snd (rectangle_step True ''DW_2000Q_6'' ax s)))) ! ax =
        fig_axes (last (figures s)) ! ax @ [Patch_artist hardcoded_rectangle] \<and>
      Patch_artist hardcoded_rectangle \<in>
        set (fig_axes (last (figures (snd (rectangle_step True ''DW_2000Q_6'' ax s)))) ! ax) \<and>
      butlast (figures (snd (rectangle_step True ''DW_2000Q_6'' ax s))) = butlast (figures s) \<and>
      calls (snd (rectangle_step True ''DW_2000Q_6'' ax s)) = calls s @ [Add_patch]"
    by (simp add: rectangle_step_def add_patch_def add_artist_def Let_def)
  have entry: "(draw_rectangle a \<and> chip_id sampler \<noteq> ''DW_2000Q_6'' \<longrightarrow>
         fst (plot_working_graph lib sampler a s) =
           Inl (ValueError (''support DW_2000Q_6, unsupported '' @ chip_id sampler @ ''.''))) \<and>
      (draw_rectangle a \<and> chip_id sampler = ''DW_2000Q_6'' \<longrightarrow>
         (\<exists>s7. plot_working_graph lib sampler a s = output_phase lib a s7 \<and>
            figures s7 = figures s @
              [\<lparr>fig_figsize = figsize a,
                fig_axes = [[Graph_artist df T
                  (node_color T (working_graph sampler) (ng_color a) (ok_color a))
                  (edge_color T (working_graph sampler) (ng_color a) (ok_color a)) 1,
                  Patch_artist hardcoded_rectangle]]\<rparr>])) \<and>
      (\<not> draw_rectangle a \<longrightarrow>
         (\<exists>s7. plot_working_graph lib sampler a s = output_phase lib a s7 \<and>
            figures s7 = figures s @
              [\<lparr>fig_figsize = figsize a,
                fig_axes = [[Graph_artist df T
                  (node_color T (working_graph sampler) (ng_color a) (ok_color a))
                  (edge_color T (working_graph sampler) (ng_color a) (ok_color a)) 1]]\<rparr>]))"
    if sel: "select_funcs (topology_type sampler) = Inr (gf, df)"
      and T: "apply_graph_func lib gf (topology_shape sampler) = Inr T"
      "figure_raises lib (figsize a) = None"
      "draw_raises lib df T (node_color T (working_graph sampler) (ng_color a) (ok_color a))
        (edge_color T (working_graph sampler) (ng_color a) (ok_color a)) = None"
  proof -
    note ok = draw_phase_ok [OF T, of s]
    note p = plot_supported [OF sel, of lib a s]
    have 1: "draw_rectangle a \<and> chip_id sampler \<noteq> ''DW_2000Q_6'' \<longrightarrow>
         fst (plot_working_graph lib sampler a s) =
           Inl (ValueError (''support DW_2000Q_6, unsupported '' @ chip_id sampler @ ''.''))"
      by (simp add: p ok rectangle_step_def)
    have 2: "draw_rectangle a \<and> chip_id sampler = ''DW_2000Q_6'' \<longrightarrow>
         plot_working_graph lib sampler a s =
           output_phase lib a (add_patch 0 hardcoded_rectangle (snd (draw_phase lib sampler a gf df s)))"
      by (simp add: p ok rectangle_step_def)
    have 3: "\<not> draw_rectangle a \<longrightarrow>
         plot_working_graph lib sampler a s =
           output_phase lib a (snd (draw_phase lib sampler a gf df s))"
      by (simp add: p ok rectangle_step_def)
    have f2: "figures (add_patch 0 hardcoded_rectangle (snd (draw_phase lib sampler a gf df s))) =
       figures s @
              [\<lparr>fig_figsize = figsize a,
                fig_axes = [[Graph_artist df T
                  (node_color T (working_graph sampler) (ng_color a) (ok_color a))
                  (edge_color T (working_graph sampler) (ng_color a) (ok_color a)) 1,
                  Patch_artist hardcoded_rectangle]]\<rparr>]"
      by (simp add: ok add_patch_def add_artist_def)
    have f3: "figures (snd (draw_phase lib sampler a gf df s)) =
       figures s @
              [\<lparr>fig_figsize = figsize a,
                fig_axes = [[Graph_artist df T
                  (node_color T (working_graph sampler) (ng_color a) (ok_color a))
                  (edge_color T (working_graph sampler) (ng_color a) (ok_color a)) 1]]\<rparr>]"
      by (simp add: ok)
    from 1 2 3 f2 f3 show ?thesis by blast
  qed
  have rest: "rectangle_step False chip ax s = (Inr (), s) \<and>
   (chip \<noteq> ''DW_2000Q_6'' \<longrightarrow>
      rectangle_step True chip ax s =
        (Inl (ValueError (''support DW_2000Q_6, unsupported '' @ chip @ ''.'')), s)) \<and>
   hardcoded_rectangle =
     \<lparr>xy = (37 / 100, - (82 / 100)), width = 64 / 100, height = 83 / 100,
      ec = ''green'', fill = False, ls = ''--'', lw = ''2''\<rparr>"
    by (simp add: rectangle_step_def hardcoded_rectangle_def)
  from step entry rest show ?thesis by blast
qed

theorem region_gating_witness:
  "chip_id sampler_advantage \<noteq> ''DW_2000Q_6'' \<and>
   rectangle_step True (chip_id sampler_advantage) 0 state_drawn =
     (Inl (ValueError ''support DW_2000Q_6, unsupported Advantage_system4.1.''), state_drawn) \<and>
   figures state_drawn \<noteq> [] \<and> 0 < length (fig_axes (last (figures state_drawn))) \<and>
   fig_axes (last (figures (snd (rectangle_step True ''DW_2000Q_6'' 0 state_drawn)))) ! 0 =
     [Graph_artist Draw_chimera T3 [''blue'', ''red'', ''blue''] [''red'', ''red''] 1,
      Patch_artist hardcoded_rectangle] \<and>
   select_funcs (topology_type sampler_2000Q) = Inr (Chimera_graph, Draw_chimera) \<and>
   apply_graph_func toy_libs Chimera_graph (topology_shape sampler_2000Q) = Inr T3 \<and>
   figure_raises toy_libs (figsize rectangle_args) = None \<and>
   draw_raises toy_libs Draw_chimera T3
     (node_color T3 (working_graph sampler_2000Q) (ng_color rectangle_args) (ok_color rectangle_args))
     (edge_color T3 (working_graph sampler_2000Q) (ng_color rectangle_args) (ok_color rectangle_args)) =
     None \<and>
   draw_rectangle rectangle_args \<and> chip_id sampler_2000Q = ''DW_2000Q_6'' \<and>
   fst (plot_working_graph toy_libs sampler_2000Q rectangle_args state0) = Inr () \<and>
   fst (plot_working_graph toy_libs sampler_advantage rectangle_args state0) =
     Inl (ValueError ''support DW_2000Q_6, unsupported Advantage_system4.1.'')"
proof -
  have c: "chip_id sampler_advantage \<noteq> ''DW_2000Q_6''" by (simp add: sampler_advantage_def)
  have f: "figures state_drawn \<noteq> [] \<and> 0 < length (fig_axes (last (figures state_drawn)))"
    by (simp add: state_drawn_def)
  have h1: "apply_graph_func toy_libs Chimera_graph (topology_shape sampler_2000Q) = Inr T3 \<and>
    apply_graph_func toy_libs Pegasus_graph (topology_shape sampler_advantage) = Inr T3"
    by (simp add: sampler_2000Q_def sampler_advantage_def toy_draws)
  have h2: "figure_raises toy_libs (figsize rectangle_args) = None"
    by (simp add: rectangle_args_def toy_draws)
  have h3: "draw_raises toy_libs df T3
     (node_color T3 (working_graph sampler_2000Q) (ng_color rectangle_args) (ok_color rectangle_args))
     (edge_color T3 (working_graph sampler_2000Q) (ng_color rectangle_args) (ok_color rectangle_args)) =
     None \<and> draw_raises toy_libs df T3
     (node_color T3 (working_graph sampler_advantage) (ng_color rectangle_args) (ok_color rectangle_args))
     (edge_color T3 (working_graph sampler_advantage) (ng_color rectangle_args) (ok_color rectangle_args)) =
     None" for df
    by (simp add: rectangle_args_def sampler_2000Q_def sampler_advantage_def toy_draws)
  have d: "draw_rectangle rectangle_args \<and> chip_id sampler_2000Q = ''DW_2000Q_6''"
    by (simp add: rectangle_args_def sampler_2000Q_def)
  have o: "fst (output_phase toy_libs rectangle_args s7) = Inr ()" for s7
    by (simp add: output_phase_def rectangle_args_def os_makedirs_parent_def plt_savefig_def
        toy_libs_def)
  from region_gating [where chip = "chip_id sampler_advantage" and ax = 0 and s = state_drawn and
      sampler = sampler_2000Q and gf = Chimera_graph and df = Draw_chimera and lib = toy_libs and
      a = rectangle_args and T = T3]
  have s1: "rectangle_step True (chip_id sampler_advantage) 0 state_drawn =
     (Inl (ValueError ''support DW_2000Q_6, unsupported Advantage_system4.1.''), state_drawn) \<and>
     fig_axes (last (figures (snd (rectangle_step True ''DW_2000Q_6'' 0 state_drawn)))) ! 0 =
     [Graph_artist Draw_chimera T3 [''blue'', ''red'', ''blue''] [''red'', ''red''] 1,
      Patch_artist hardcoded_rectangle]"
    using c f by (simp add: sampler_advantage_def state_drawn_def)
  from region_gating [where chip = "chip_id sampler_advantage" and ax = 0 and s = state0 and
      sampler = sampler_2000Q and gf = Chimera_graph and df = Draw_chimera and lib = toy_libs and
      a = rectangle_args and T = T3] toy_selects h1 h2 h3 d
  have s2: "fst (plot_working_graph toy_libs sampler_2000Q rectangle_args state0) = Inr ()"
    using o by auto
  from region_gating [where chip = "chip_id sampler_advantage" and ax = 0 and s = state0 and
      sampler = sampler_advantage and gf = Pegasus_graph and df = Draw_pegasus and lib = toy_libs and
      a = rectangle_args and T = T3] toy_selects h1 h2 h3 d c
  have s3: "fst (plot_working_graph toy_libs sampler_advantage rectangle_args state0) =
     Inl (ValueError ''support DW_2000Q_6, unsupported Advantage_system4.1.'')"
    by (simp add: sampler_advantage_def)
  from c f s1 s2 s3 toy_selects h1 h2 h3 [of Draw_chimera] d show ?thesis by simp
qed

text \<open>
  C10. Where the two failures happen: with an unsupported topology the entry point
  raises before any library call, so the working graph was not queried, no lattice was
  generated and no figure or axes was created; with a supported topology, the rectangle
  requested, a chip id other than DW_2000Q_6 and no library call of lines 52 to 64
  raising, it raises the chip-id ValueError after the working graph was queried, the
  lattice generated, and a new figure with one axes opened and drawn on. When the
  generator, \<^verbatim>\<open>plt.figure\<close> or the drawer raises, the call ends at that line with that
  exception, whatever the chip id: the chip id is looked at only after the drawing.
\<close>

theorem failure_points:
  "(topology_type sampler \<noteq> ''chimera'' \<and> topology_type sampler \<noteq> ''pegasus'' \<longrightarrow>
      fst (plot_working_graph lib sampler a s) =
        Inl (ValueError (''support chimera or pegasus, unsupported '' @ topology_type sampler @ ''.'')) \<and>
      calls (snd (plot_working_graph lib sampler a s)) = calls s \<and>
      graphs (snd (plot_working_graph lib sampler a s)) = graphs s \<and>
      figures (snd (plot_working_graph lib sampler a s)) = figures s) \<and>
   (select_funcs (topology_type sampler) = Inr (gf, df) \<and> draw_rectangle a \<and>
    chip_id sampler \<noteq> ''DW_2000Q_6'' \<and>
    apply_graph_func lib gf (topology_shape sampler) = Inr T \<and>
    figure_raises lib (figsize a) = None \<and>
    draw_raises lib df T (node_color T (working_graph sampler) (ng_color a) (ok_color a))
      (edge_color T (working_graph sampler) (ng_color a) (ok_color a)) = None \<longrightarrow>
      fst (plot_working_graph lib sampler a s) =
        Inl (ValueError (''support DW_2000Q_6, unsupported '' @ chip_id sampler @ ''.'')) \<and>
      calls (snd (plot_working_graph lib sampler a s)) =
        calls s @ [To_networkx_graph, Graph_func gf (topology_shape sampler),
          Plt_figure (figsize a), Plt_axes, Draw_func df] \<and>
      figures (snd (plot_working_graph lib sampler a s)) =
        figures s @
          [\<lparr>fig_figsize = figsize a,
            fig_axes = [[Graph_artist df T
              (node_color T (working_graph sampler) (ng_color a) (ok_color a))
              (edge_color T (working_graph sampler) (ng_color a) (ok_color a)) 1]]\<rparr>]) \<and>
   (select_funcs (topology_type sampler) = Inr (gf, df) \<and>
    apply_graph_func lib gf (topology_shape sampler) = Inl err \<longrightarrow>
      fst (plot_working_graph lib sampler a s) = Inl err \<and>
      calls (snd (plot_working_graph lib sampler a s)) =
        calls s @ [To_networkx_graph, Graph_func gf (topology_shape sampler)] \<and>
      figures (snd (plot_working_graph lib sampler a s)) = figures s) \<and>
   (select_funcs (topology_type sampler) = Inr (gf, df) \<and>
    apply_graph_func lib gf (topology_shape sampler) = Inr T \<and>
    figure_raises lib (figsize a) = Some err \<longrightarrow>
      fst (plot_working_graph lib sampler a s) = Inl err \<and>
      calls (snd (plot_working_graph lib sampler a s)) =
        calls s @ [To_networkx_graph, Graph_func gf (topology_shape sampler),
          Plt_figure (figsize a)] \<and>
      figures (snd (plot_working_graph lib sampler a s)) = figures s) \<and>
   (select_funcs (topology_type sampler) = Inr (gf, df) \<and>
    apply_graph_func lib gf (topology_shape sampler) = Inr T \<and>
    figure_raises lib (figsize a) = None \<and>
    draw_raises lib df T (node_color T (working_graph sampler) (ng_color a) (ok_color a))
      (edge_color T (working_graph sampler) (ng_color a) (ok_color a)) = Some (err, left) \<longrightarrow>
      fst (plot_working_graph lib sampler a s) = Inl err \<and>
      calls (snd (plot_working_graph lib sampler a s)) =
        calls s @ [To_networkx_graph, Graph_func gf (topology_shape sampler),
          Plt_figure (figsize a), Plt_axes, Draw_func df])"
proof (intro conjI impI)
  assume "topology_type sampler \<noteq> ''chimera'' \<and> topology_type sampler \<noteq> ''pegasus''"
  then have u: "plot_working_graph lib sampler a s =
     (Inl (ValueError (''support chimera or pegasus, unsupported '' @ topology_type sampler @ ''.'')), s)"
    by (simp add: plot_unsupported)
  show "fst (plot_working_graph lib sampler a s) =
        Inl (ValueError (''support chimera or pegasus, unsupported '' @ topology_type sampler @ ''.''))"
    "calls (snd (plot_working_graph lib sampler a s)) = calls s"
    "graphs (snd (plot_working_graph lib sampler a s)) = graphs s"
    "figures (snd (plot_working_graph lib sampler a s)) = figures s"
    by (simp_all add: u)
next
  assume h: "select_funcs (topology_type sampler) = Inr (gf, df) \<and> draw_rectangle a \<and>
    chip_id sampler \<noteq> ''DW_2000Q_6'' \<and>
    apply_graph_func lib gf (topology_shape sampler) = Inr T \<and>
    figure_raises lib (figsize a) = None \<and>
    draw_raises lib df T (node_color T (working_graph sampler) (ng_color a) (ok_color a))
      (edge_color T (working_graph sampler) (ng_color a) (ok_color a)) = None"
  then have ok: "draw_phase lib sampler a gf df s =
     (Inr 0, s\<lparr>graphs := graphs s @ [working_graph sampler, T],
            figures := figures s @
              [\<lparr>fig_figsize = figsize a,
                fig_axes = [[Graph_artist df T
                  (node_color T (working_graph sampler) (ng_color a) (ok_color a))
                  (edge_color T (working_graph sampler) (ng_color a) (ok_color a)) 1]]\<rparr>],
            calls := calls s @ [To_networkx_graph, Graph_func gf (topology_shape sampler),
              Plt_figure (figsize a), Plt_axes, Draw_func df]\<rparr>)"
    by (simp add: draw_phase_ok)
  from h have p: "plot_working_graph lib sampler a s =
     (Inl (ValueError (''support DW_2000Q_6, unsupported '' @ chip_id sampler @ ''.'')),
      snd (draw_phase lib sampler a gf df s))"
    by (simp add: plot_supported ok rectangle_step_def)
  show "fst (plot_working_graph lib sampler a s) =
        Inl (ValueError (''support DW_2000Q_6, unsupported '' @ chip_id sampler @ ''.''))"
    "calls (snd (plot_working_graph lib sampler a s)) =
        calls s @ [To_networkx_graph, Graph_func gf (topology_shape sampler),
          Plt_figure (figsize a), Plt_axes, Draw_func df]"
    "figures (snd (plot_working_graph lib sampler a s)) =
        figures s @
          [\<lparr>fig_figsize = figsize a,
            fig_axes = [[Graph_artist df T
              (node_color T (working_graph sampler) (ng_color a) (ok_color a))
              (edge_color T (working_graph sampler) (ng_color a) (ok_color a)) 1]]\<rparr>]"
    by (simp_all add: p ok)
next
  assume h: "select_funcs (topology_type sampler) = Inr (gf, df) \<and>
    apply_graph_func lib gf (topology_shape sampler) = Inl err"
  then have p: "plot_working_graph lib sampler a s =
      (Inl err, s\<lparr>graphs := graphs s @ [working_graph sampler],
              calls := calls s @ [To_networkx_graph, Graph_func gf (topology_shape sampler)]\<rparr>)"
    by (simp add: plot_supported draw_phase_generator_raises)
  show "fst (plot_working_graph lib sampler a s) = Inl err"
    "calls (snd (plot_working_graph lib sampler a s)) =
        calls s @ [To_networkx_graph, Graph_func gf (topology_shape sampler)]"
    "figures (snd (plot_working_graph lib sampler a s)) = figures s"
    by (simp_all add: p)
next
  assume h: "select_funcs (topology_type sampler) = Inr (gf, df) \<and>
    apply_graph_func lib gf (topology_shape sampler) = Inr T \<and>
    figure_raises lib (figsize a) = Some err"
  then have p: "plot_working_graph lib sampler a s =
     (Inl err, s\<lparr>graphs := graphs s @ [working_graph sampler, T],
              calls := calls s @ [To_networkx_graph, Graph_func gf (topology_shape sampler),
                Plt_figure (figsize a)]\<rparr>)"
    by (simp add: plot_supported draw_phase_figure_raises)
  show "fst (plot_working_graph lib sampler a s) = Inl err"
    "calls (snd (plot_working_graph lib sampler a s)) =
        calls s @ [To_networkx_graph, Graph_func gf (topology_shape sampler),
          Plt_figure (figsize a)]"
    "figures (snd (plot_working_graph lib sampler a s)) = figures s"
    by (simp_all add: p)
next
  assume h: "select_funcs (topology_type sampler) = Inr (gf, df) \<and>
    apply_graph_func lib gf (topology_shape sampler) = Inr T \<and>
    figure_raises lib (figsize a) = None \<and>
    draw_raises lib df T (node_color T (working_graph sampler) (ng_color a) (ok_color a))
      (edge_color T (working_graph sampler) (ng_color a) (ok_color a)) = Some (err, left)"
  then have d: "fst (draw_phase lib sampler a gf df s) = Inl err \<and>
     calls (snd (draw_phase lib sampler a gf df s)) =
       calls s @ [To_networkx_graph, Graph_func gf (topology_shape sampler),
         Plt_figure (figsize a), Plt_axes, Draw_func df]"
    by (simp add: draw_phase_draw_raises)
  obtain s6 where s6: "draw_phase lib sampler a gf df s = (Inl err, s6)"
    using d by (cases "draw_phase lib sampler a gf df s") auto
  from h have p: "plot_working_graph lib sampler a s = (Inl err, s6)"
    by (simp add: plot_supported s6)
  show "fst (plot_working_graph lib sampler a s) = Inl err"
    "calls (snd (plot_working_graph lib sampler a s)) =
        calls s @ [To_networkx_graph, Graph_func gf (topology_shape sampler),
          Plt_figure (figsize a), Plt_axes, Draw_func df]"
    using d by (simp_all add: p s6)
qed

theorem failure_points_witness:
  "topology_type sampler_zephyr \<noteq> ''chimera'' \<and> topology_type sampler_zephyr \<noteq> ''pegasus'' \<and>
   fst (plot_working_graph toy_libs sampler_zephyr default_args state0) =
     Inl (ValueError ''support chimera or pegasus, unsupported zephyr.'') \<and>
   calls (snd (plot_working_graph toy_libs sampler_zephyr default_args state0)) = [] \<and>
   select_funcs (topology_type sampler_advantage) = Inr (Pegasus_graph, Draw_pegasus) \<and>
   draw_rectangle rectangle_args \<and> chip_id sampler_advantage \<noteq> ''DW_2000Q_6'' \<and>
   apply_graph_func toy_libs Pegasus_graph (topology_shape sampler_advantage) = Inr T3 \<and>
   figure_raises toy_libs (figsize rectangle_args) = None \<and>
   draw_raises toy_libs Draw_pegasus T3
     (node_color T3 (working_graph sampler_advantage) (ng_color rectangle_args) (ok_color rectangle_args))
     (edge_color T3 (working_graph sampler_advantage) (ng_color rectangle_args) (ok_color rectangle_args)) =
     None \<and>
   fst (plot_working_graph toy_libs sampler_advantage rectangle_args state0) =
     Inl (ValueError ''support DW_2000Q_6, unsupported Advantage_system4.1.'') \<and>
   calls (snd (plot_working_graph toy_libs sampler_advantage rectangle_args state0)) =
     [To_networkx_graph, Graph_func Pegasus_graph [16], Plt_figure (8, 8), Plt_axes,
      Draw_func Draw_pegasus] \<and>
   apply_graph_func toy_libs Pegasus_graph [] = Inl (Other_exception ''TypeError'') \<and>
   calls (snd (plot_working_graph toy_libs (sampler_advantage\<lparr>topology_shape := []\<rparr>)
     rectangle_args state0)) = [To_networkx_graph, Graph_func Pegasus_graph []] \<and>
   figure_raises toy_libs (figsize negative_size_args) =
     Some (ValueError ''figure size must be positive finite'') \<and>
   fst (plot_working_graph toy_libs sampler_advantage negative_size_args state0) =
     Inl (ValueError ''figure size must be positive finite'') \<and>
   calls (snd (plot_working_graph toy_libs sampler_advantage negative_size_args state0)) =
     [To_networkx_graph, Graph_func Pegasus_graph [16], Plt_figure (- 1, 8)] \<and>
   figures (snd (plot_working_graph toy_libs sampler_advantage negative_size_args state0)) = [] \<and>
   draw_raises toy_libs Draw_pegasus T3
     (node_color T3 (working_graph sampler_advantage) (ng_color unknown_color_args)
        (ok_color unknown_color_args))
     (edge_color T3 (working_graph sampler_advantage) (ng_color unknown_color_args)
        (ok_color unknown_color_args)) = Some (ValueError ''not a valid color'', []) \<and>
   fst (plot_working_graph toy_libs sampler_advantage unknown_color_args state0) =
     Inl (ValueError ''not a valid color'')"
proof -
  have z: "topology_type sampler_zephyr \<noteq> ''chimera'' \<and> topology_type sampler_zephyr \<noteq> ''pegasus''"
    by (simp add: sampler_zephyr_def)
  have sel: "select_funcs (topology_type sampler_advantage) = Inr (Pegasus_graph, Draw_pegasus)"
    "select_funcs (topology_type (sampler_advantage\<lparr>topology_shape := []\<rparr>)) =
       Inr (Pegasus_graph, Draw_pegasus)"
    by (simp_all add: select_funcs_def sampler_advantage_def)
  have d: "draw_rectangle rectangle_args \<and> chip_id sampler_advantage \<noteq> ''DW_2000Q_6''"
    by (simp add: rectangle_args_def sampler_advantage_def)
  have g: "apply_graph_func toy_libs Pegasus_graph (topology_shape sampler_advantage) = Inr T3"
    "apply_graph_func toy_libs Pegasus_graph [] = Inl (Other_exception ''TypeError'')"
    by (simp_all add: sampler_advantage_def toy_libs_def apply_graph_func_def)
  have f: "figure_raises toy_libs (figsize rectangle_args) = None"
    "figure_raises toy_libs (figsize unknown_color_args) = None"
    "figure_raises toy_libs (figsize negative_size_args) =
       Some (ValueError ''figure size must be positive finite'')"
    by (simp_all add: rectangle_args_def negative_size_args_def unknown_color_args_def toy_libs_def)
  have dr: "draw_raises toy_libs Draw_pegasus T3
     (node_color T3 (working_graph sampler_advantage) (ng_color rectangle_args) (ok_color rectangle_args))
     (edge_color T3 (working_graph sampler_advantage) (ng_color rectangle_args) (ok_color rectangle_args)) =
     None"
    by (simp add: rectangle_args_def sampler_advantage_def toy_draws)
  have du: "draw_raises toy_libs Draw_pegasus T3
     (node_color T3 (working_graph sampler_advantage) (ng_color unknown_color_args)
        (ok_color unknown_color_args))
     (edge_color T3 (working_graph sampler_advantage) (ng_color unknown_color_args)
        (ok_color unknown_color_args)) = Some (ValueError ''not a valid color'', [])"
    by (simp add: unknown_color_args_def sampler_advantage_def toy_libs_def view_defs T3_def G3_def)
  note fp = failure_points [where lib = toy_libs and s = state0 and gf = Pegasus_graph and
      df = Draw_pegasus and T = T3]
  from fp [where sampler = sampler_zephyr and a = default_args] z
  have 1: "fst (plot_working_graph toy_libs sampler_zephyr default_args state0) =
     Inl (ValueError ''support chimera or pegasus, unsupported zephyr.'') \<and>
   calls (snd (plot_working_graph toy_libs sampler_zephyr default_args state0)) = []"
    by (simp add: sampler_zephyr_def state0_def)
  from fp [where sampler = sampler_advantage and a = rectangle_args] sel d g f dr
  have 2: "fst (plot_working_graph toy_libs sampler_advantage rectangle_args state0) =
     Inl (ValueError ''support DW_2000Q_6, unsupported Advantage_system4.1.'') \<and>
   calls (snd (plot_working_graph toy_libs sampler_advantage rectangle_args state0)) =
     [To_networkx_graph, Graph_func Pegasus_graph [16], Plt_figure (8, 8), Plt_axes,
      Draw_func Draw_pegasus]"
    by (simp add: sampler_advantage_def rectangle_args_def state0_def)
  from fp [where sampler = "sampler_advantage\<lparr>topology_shape := []\<rparr>" and a = rectangle_args and
      err = "Other_exception ''TypeError''"] sel g
  have 3: "calls (snd (plot_working_graph toy_libs (sampler_advantage\<lparr>topology_shape := []\<rparr>)
     rectangle_args state0)) = [To_networkx_graph, Graph_func Pegasus_graph []]"
    by (simp add: state0_def)
  from fp [where sampler = sampler_advantage and a = negative_size_args and
      err = "ValueError ''figure size must be positive finite''"] sel g f
  have 4: "fst (plot_working_graph toy_libs sampler_advantage negative_size_args state0) =
     Inl (ValueError ''figure size must be positive finite'') \<and>
   calls (snd (plot_working_graph toy_libs sampler_advantage negative_size_args state0)) =
     [To_networkx_graph, Graph_func Pegasus_graph [16], Plt_figure (- 1, 8)] \<and>
   figures (snd (plot_working_graph toy_libs sampler_advantage negative_size_args state0)) = []"
    by (simp add: sampler_advantage_def negative_size_args_def state0_def)
  from fp [where sampler = sampler_advantage and a = unknown_color_args and
      err = "ValueError ''not a valid color''" and left = "[]"] sel g f du
  have 5: "fst (plot_working_graph toy_libs sampler_advantage unknown_color_args state0) =
     Inl (ValueError ''not a valid color'')"
    by simp
  from z sel d g f dr du 1 2 3 4 5 show ?thesis by simp
qed

text \<open>
  The claim C9 as it is written fails: on a Pegasus device whose chip id is not
  DW_2000Q_6, with the rectangle requested, the entry point raises after the lattice was
  drawn and before \<^verbatim>\<open>plt.clf()\<close>, and the current figure still holds the drawing.
\<close>

theorem cleanup_counterexample:
  "plot_working_graph toy_libs sampler_advantage rectangle_args state0 =
     (Inl (ValueError ''support DW_2000Q_6, unsupported Advantage_system4.1.''),
      \<lparr>graphs = [G3, T3],
       figures = [\<lparr>fig_figsize = (8, 8),
                   fig_axes = [[Graph_artist Draw_pegasus T3 [''blue'', ''red'', ''blue'']
                                  [''red'', ''red''] 1]]\<rparr>],
       calls = [To_networkx_graph, Graph_func Pegasus_graph [16], Plt_figure (8, 8), Plt_axes,
                Draw_func Draw_pegasus]\<rparr>) \<and>
   fig_axes (last (figures (snd (plot_working_graph toy_libs sampler_advantage rectangle_args state0)))) \<noteq> []"
proof -
  have sel: "select_funcs (topology_type sampler_advantage) = Inr (Pegasus_graph, Draw_pegasus)"
    by (simp add: toy_selects)
  have ok: "draw_phase toy_libs sampler_advantage rectangle_args Pegasus_graph Draw_pegasus state0 =
     (Inr 0, \<lparr>graphs = [G3, T3],
       figures = [\<lparr>fig_figsize = (8, 8),
                   fig_axes = [[Graph_artist Draw_pegasus T3 [''blue'', ''red'', ''blue'']
                                  [''red'', ''red''] 1]]\<rparr>],
       calls = [To_networkx_graph, Graph_func Pegasus_graph [16], Plt_figure (8, 8), Plt_axes,
                Draw_func Draw_pegasus]\<rparr>)"
    using draw_phase_ok [where lib = toy_libs and sampler = sampler_advantage and
        a = rectangle_args and gf = Pegasus_graph and df = Draw_pegasus and T = T3 and s = state0]
    by (simp add: sampler_advantage_def rectangle_args_def state0_def toy_draws)
  have "plot_working_graph toy_libs sampler_advantage rectangle_args state0 =
     (Inl (ValueError ''support DW_2000Q_6, unsupported Advantage_system4.1.''),
      \<lparr>graphs = [G3, T3],
       figures = [\<lparr>fig_figsize = (8, 8),
                   fig_axes = [[Graph_artist Draw_pegasus T3 [''blue'', ''red'', ''blue'']
                                  [''red'', ''red''] 1]]\<rparr>],
       calls = [To_networkx_graph, Graph_func Pegasus_graph [16], Plt_figure (8, 8), Plt_axes,
                Draw_func Draw_pegasus]\<rparr>)"
    by (simp add: plot_supported [OF sel] ok rectangle_step_def)
       (simp add: sampler_advantage_def rectangle_args_def)
  then show ?thesis by simp
qed

text \<open>
  C9, amended. Drawing-surface cleanup: an invocation that returns normally ends with
  \<^verbatim>\<open>plt.clf()\<close> and leaves the figure it opened empty (when \<^verbatim>\<open>plt.show()\<close> closed the figures,
  the fresh current figure that \<^verbatim>\<open>plt.clf()\<close> then opens is empty); an invocation that fails on
  an unsupported topology has opened no figure.
\<close>

theorem cleanup_on_return:
  "(fst (plot_working_graph lib sampler a s) = Inr () \<longrightarrow>
      figures (snd (plot_working_graph lib sampler a s)) =
        (if out_path a = None \<and> show_closes_figures lib
         then [\<lparr>fig_figsize = rc_figsize, fig_axes = []\<rparr>]
         else figures s @ [\<lparr>fig_figsize = figsize a, fig_axes = []\<rparr>]) \<and>
      last (calls (snd (plot_working_graph lib sampler a s))) = Plt_clf) \<and>
   (topology_type sampler \<noteq> ''chimera'' \<and> topology_type sampler \<noteq> ''pegasus'' \<longrightarrow>
      figures (snd (plot_working_graph lib sampler a s)) = figures s)"
  using plot_returns [of lib sampler a s] by (simp add: plot_unsupported)

theorem cleanup_on_return_witness:
  "fst (plot_working_graph toy_libs sampler_2000Q rectangle_args state0) = Inr () \<and>
   figures (snd (plot_working_graph toy_libs sampler_2000Q rectangle_args state0)) =
     [\<lparr>fig_figsize = (8, 8), fig_axes = []\<rparr>] \<and>
   last (calls (snd (plot_working_graph toy_libs sampler_2000Q rectangle_args state0))) = Plt_clf \<and>
   topology_type sampler_zephyr \<noteq> ''chimera'' \<and> topology_type sampler_zephyr \<noteq> ''pegasus'' \<and>
   figures (snd (plot_working_graph toy_libs sampler_zephyr rectangle_args state0)) = []"
proof -
  have sel: "select_funcs (topology_type sampler_2000Q) = Inr (Chimera_graph, Draw_chimera)"
    by (simp add: toy_selects)
  have ok: "fst (draw_phase toy_libs sampler_2000Q rectangle_args Chimera_graph Draw_chimera state0) = Inr 0"
    using draw_phase_ok [where lib = toy_libs and sampler = sampler_2000Q and
        a = rectangle_args and gf = Chimera_graph and df = Draw_chimera and T = T3 and s = state0]
    by (simp add: sampler_2000Q_def rectangle_args_def toy_draws)
  obtain s6 where s6: "draw_phase toy_libs sampler_2000Q rectangle_args Chimera_graph Draw_chimera state0 = (Inr 0, s6)"
    using ok by (cases "draw_phase toy_libs sampler_2000Q rectangle_args Chimera_graph Draw_chimera state0") auto
  have o: "fst (output_phase toy_libs rectangle_args s7) = Inr ()" for s7 :: "int state"
    by (simp add: output_phase_def rectangle_args_def os_makedirs_parent_def plt_savefig_def
        toy_libs_def)
  have c: "chip_id sampler_2000Q = ''DW_2000Q_6''" by (simp add: sampler_2000Q_def)
  have r: "fst (plot_working_graph toy_libs sampler_2000Q rectangle_args state0) = Inr ()"
    by (simp add: plot_supported [OF sel] s6 rectangle_step_def o c)
  have z: "topology_type sampler_zephyr \<noteq> ''chimera'' \<and> topology_type sampler_zephyr \<noteq> ''pegasus''"
    by (simp add: sampler_zephyr_def)
  from cleanup_on_return [where lib = toy_libs and sampler = sampler_2000Q and
      a = rectangle_args and s = state0]
    cleanup_on_return [where lib = toy_libs and sampler = sampler_zephyr and
      a = rectangle_args and s = state0] r z
  show ?thesis by (simp add: rectangle_args_def state0_def)
qed

end
